theory Spec2Isabelle
  imports Complex_Main "HOL-Library.Word"
begin

section \<open>The MIDI player controller (src/MidiPlayer.js)\<close>

text \<open>
  The class \<open>MidiPlayer\<close> sequences calls to collaborators that are not part of the
  file: the synthesis engine (\<open>LibTiMidity\<close>), the host (\<open>AudioContext\<close> and its
  nodes, \<open>fetch\<close>) and the event sink (\<open>EventHandler\<close>). The model threads the instance's fields through every method as
  a record, keeps a trace of every external call and emitted event in order, and lets
  a \<open>world\<close> decide the outcome of each external call from the history so far:
  a call either returns or throws. JavaScript exceptions and rejected promises are
  the \<open>Inl\<close> branch of a sum; \<open>await\<close> is sequencing.
\<close>

subsection \<open>JavaScript values\<close>

text \<open>
  Numbers are reals together with the three special values; rounding to binary
  floating point is not part of the model. Only primitive values are modelled.
\<close>

datatype jsnum = NaN | PosInf | NegInf | Num real

datatype jsval = JUndefined | JNull | JBool bool | JNum jsnum | JStr string

datatype exn = TypeError | Thrown string

text \<open>Arguments marshalled to the engine by \<open>LibTiMidity.call\<close>.\<close>

datatype arg = AUndef | ANum int | ABool bool

fun arg_of :: "int option \<Rightarrow> arg" where
  "arg_of None = AUndef"
| "arg_of (Some n) = ANum n"

subsection \<open>Events, external calls and the trace\<close>

datatype errmsg =
    Msg string
  | CouldNotRetrieveMidi
  | CouldNotRetrievePatch string int
  | VolumeNotParsable jsval

datatype detail = Caught exn | StatusCode int

datatype event =
    EvInit
  | EvLoadFile string
  | EvLoadPatch int
  | EvPlay real
  | EvPause real
  | EvResume real
  | EvStop
  | EvEnd real
  | EvError errmsg "detail option"
  | EvCustom "string option" "string option"

datatype call =
    Init bool
  | Malloc nat
  | Free "int option"
  | WriteArrayToMemory "8 word list" "int option"
  | Engine string "arg list"
  | LoadPatchFromUrl string string
  | Fetch string
  | ResponseArrayBuffer
  | NewAudioContext
  | ContextClose
  | ContextSuspend
  | ContextResume
  | CreateScriptProcessor nat nat nat
  | CreateGain
  | GainConnectDestination
  | SourceConnectGain
  | SourceDisconnect

datatype effect = Called call | Emitted event

datatype audio_context = AudioContext (rate: int)

text \<open>
  The world answers every external call from the history of effects. A call with no
  interesting result only says whether it throws. \<open>w_heap\<close> is the engine's memory
  as the engine has left it after the history; \<open>w_parseFloat\<close> and
  \<open>w_toNumber\<close> are the runtime's conversions of a string to a number.
\<close>

record world =
  w_engine :: "effect list \<Rightarrow> string \<Rightarrow> arg list \<Rightarrow> exn + int"
  w_engine_string :: "effect list \<Rightarrow> string \<Rightarrow> arg list \<Rightarrow> exn + string"
  w_malloc :: "effect list \<Rightarrow> nat \<Rightarrow> exn + int"
  w_void :: "effect list \<Rightarrow> call \<Rightarrow> exn option"
  w_fetch :: "effect list \<Rightarrow> string \<Rightarrow> exn + int"
  w_arrayBuffer :: "effect list \<Rightarrow> exn + 8 word list"
  w_newAudioContext :: "effect list \<Rightarrow> exn + audio_context"
  w_currentTime :: "effect list \<Rightarrow> real"
  w_heap :: "effect list \<Rightarrow> int \<Rightarrow> 8 word"
  w_parseFloat :: "string \<Rightarrow> jsnum"
  w_toNumber :: "string \<Rightarrow> jsnum"

subsection \<open>The instance\<close>

text \<open>
  A field that the constructor leaves unset is \<open>None\<close> (\<open>undefined\<close>). The gain node
  is represented by its \<open>gain.value\<close>, the output stage \<open>source\<close> by its presence,
  the logger callback by an identifier.
\<close>

record player =
  eventLogger :: "nat option"
  logging :: bool
  ctx :: "audio_context option"
  sampleRate :: "int option"
  source :: "unit option"
  gainNode :: "jsnum option"
  song :: "int option"
  stream :: "int option"
  midiFileArray :: "8 word list"
  midiFileBuffer :: "int option"
  waveBuffer :: "int option"
  startTime :: real
  volume :: jsval
  patchUrl :: string
  trace :: "effect list"

text \<open>Constants of \<open>./constants\<close>, which is not among the sources.\<close>

record constants =
  MIDI_AUDIO_BUFFER_SIZE :: nat
  MIDI_AUDIO_S16LSB :: int

text \<open>Modelled from the spec: the constant \<open>MAX_I16\<close> of \<open>./constants\<close>, "the maximum
  representable 16-bit magnitude (32767)".\<close>

definition MAX_I16 :: real where
  "MAX_I16 = 32767"

subsection \<open>Statements: state, exceptions, sequencing\<close>

type_synonym 'a js = "player \<Rightarrow> (exn + 'a) \<times> player"

definition ret :: "'a \<Rightarrow> 'a js" where
  "ret x = (\<lambda>p. (Inr x, p))"

definition throw :: "exn \<Rightarrow> 'a js" where
  "throw e = (\<lambda>p. (Inl e, p))"

definition andThen :: "'a js \<Rightarrow> ('a \<Rightarrow> 'b js) \<Rightarrow> 'b js" where
  "andThen m f = (\<lambda>p. case m p of (Inl e, p') \<Rightarrow> (Inl e, p') | (Inr x, p') \<Rightarrow> f x p')"

definition try_catch :: "'a js \<Rightarrow> (exn \<Rightarrow> 'a js) \<Rightarrow> 'a js" where
  "try_catch m h = (\<lambda>p. case m p of (Inl e, p') \<Rightarrow> h e p' | (Inr x, p') \<Rightarrow> (Inr x, p'))"

text \<open>A block of statements run for their effect, in order.\<close>

fun block :: "unit js list \<Rightarrow> unit js" where
  "block [] = ret ()"
| "block (m # ms) = andThen m (\<lambda>_. block ms)"

definition assign :: "(player \<Rightarrow> player) \<Rightarrow> unit js" where
  "assign f = (\<lambda>p. (Inr (), f p))"

definition record_effect :: "effect \<Rightarrow> player \<Rightarrow> player" where
  "record_effect x p = p\<lparr>trace := trace p @ [x]\<rparr>"

text \<open>Modelled from the spec: the event sink \<open>EventHandler\<close>, which "receives tagged
  event payloads"; emitting records the payload and returns.\<close>

definition emit :: "event \<Rightarrow> unit js" where
  "emit e = (\<lambda>p. (Inr (), record_effect (Emitted e) p))"

definition emitError :: "errmsg \<Rightarrow> detail option \<Rightarrow> unit js" where
  "emitError m d = emit (EvError m d)"

definition call_void :: "world \<Rightarrow> call \<Rightarrow> unit js" where
  "call_void w c = (\<lambda>p.
     (case w_void w (trace p) c of Some e \<Rightarrow> Inl e | None \<Rightarrow> Inr (),
      record_effect (Called c) p))"

definition engine :: "world \<Rightarrow> string \<Rightarrow> arg list \<Rightarrow> int js" where
  "engine w name args = (\<lambda>p.
     (w_engine w (trace p) name args, record_effect (Called (Engine name args)) p))"

definition engine_string :: "world \<Rightarrow> string \<Rightarrow> arg list \<Rightarrow> string js" where
  "engine_string w name args = (\<lambda>p.
     (w_engine_string w (trace p) name args, record_effect (Called (Engine name args)) p))"

definition malloc :: "world \<Rightarrow> nat \<Rightarrow> int js" where
  "malloc w n = (\<lambda>p. (w_malloc w (trace p) n, record_effect (Called (Malloc n)) p))"

text \<open>A method of \<open>this.context\<close>: a \<open>TypeError\<close> when the field is unset.\<close>

definition context_call :: "world \<Rightarrow> call \<Rightarrow> unit js" where
  "context_call w c = (\<lambda>p.
     case ctx p of None \<Rightarrow> throw TypeError p | Some _ \<Rightarrow> call_void w c p)"

definition context_currentTime :: "world \<Rightarrow> real js" where
  "context_currentTime w = (\<lambda>p.
     case ctx p of None \<Rightarrow> throw TypeError p
     | Some _ \<Rightarrow> (Inr (w_currentTime w (trace p)), p))"

subsection \<open>The constructor\<close>

text \<open>
  The constructor after the event handler has been built, with the module's flag
  \<open>isFirstInstance\<close> as an argument. The fields it does not assign stay unset.
\<close>

definition blank :: player where
  "blank = \<lparr>eventLogger = None, logging = False, ctx = None, sampleRate = None, source = None, gainNode = None, song = None,
     stream = None, midiFileArray = [], midiFileBuffer = None, waveBuffer = None,
     startTime = 0, volume = JUndefined, patchUrl = [], trace = []\<rparr>"

definition MidiPlayer ::
  "world \<Rightarrow> bool \<Rightarrow> nat option \<Rightarrow> bool \<Rightarrow> string \<Rightarrow> jsval \<Rightarrow> player" where
  "MidiPlayer w isFirstInstance logger verbose url v =
     snd (try_catch
       (block [
          assign (\<lambda>p. p\<lparr>eventLogger := logger, logging := verbose, patchUrl := url,
                        volume := v, startTime := 0\<rparr>),
          call_void w (Init isFirstInstance),
          emit EvInit])
       (\<lambda>error. emitError (Msg ''Could not initialize instance of MidiPlayer.'')
                  (Some (Caught error)))
       blank)"

subsection \<open>stop, pause, resume\<close>

definition disconnectSource :: "world \<Rightarrow> unit js" where
  "disconnectSource w = block [
     (\<lambda>p. case source p of None \<Rightarrow> throw TypeError p
           | Some _ \<Rightarrow> call_void w SourceDisconnect p),
     assign (\<lambda>p. p\<lparr>source := None\<rparr>)]"

definition freeMemory :: "world \<Rightarrow> unit js" where
  "freeMemory w = block [
     (\<lambda>p. call_void w (Free (waveBuffer p)) p),
     (\<lambda>p. call_void w (Free (midiFileBuffer p)) p),
     (\<lambda>p. andThen (engine w ''mid_song_free'' [arg_of (song p)]) (\<lambda>_. ret ()) p)]"

definition stop :: "world \<Rightarrow> bool js" where
  "stop w = try_catch
     (andThen
        (block [
           (\<lambda>p. if source p \<noteq> None
                 then block [
                        context_call w ContextClose,
                        disconnectSource w,
                        freeMemory w,
                        andThen (engine w ''mid_exit'' []) (\<lambda>_. ret ()),
                        assign (\<lambda>p. p\<lparr>song := Some 0\<rparr>)] p
                 else ret () p),
           assign (\<lambda>p. p\<lparr>startTime := 0\<rparr>),
           emit EvStop])
        (\<lambda>_. ret True))
     (\<lambda>error. andThen (emitError (Msg ''Could not stop playback.'') (Some (Caught error)))
                (\<lambda>_. ret False))"

definition pause :: "world \<Rightarrow> bool js" where
  "pause w = try_catch
     (andThen
        (\<lambda>p. if ctx p \<noteq> None
              then andThen (context_call w ContextSuspend)
                     (\<lambda>_. andThen (context_currentTime w)
                        (\<lambda>now p. (Inr (now - startTime p), p))) p
              else ret 0 p)
        (\<lambda>time. andThen (emit (EvPause time)) (\<lambda>_. ret True)))
     (\<lambda>error. andThen (emitError (Msg ''Could not pause playback.'') (Some (Caught error)))
                (\<lambda>_. ret False))"

definition resume :: "world \<Rightarrow> bool js" where
  "resume w = try_catch
     (andThen
        (\<lambda>p. if ctx p \<noteq> None
              then andThen (context_call w ContextResume)
                     (\<lambda>_. andThen (context_currentTime w)
                        (\<lambda>now p. (Inr (now - startTime p), p))) p
              else ret 0 p)
        (\<lambda>time. andThen (emit (EvResume time)) (\<lambda>_. ret True)))
     (\<lambda>error. andThen (emitError (Msg ''Could not resume playback.'') (Some (Caught error)))
                (\<lambda>_. ret False))"

subsection \<open>getVolume, setVolume\<close>

text \<open>
  \<open>parseFloat\<close> converts its argument to a string first: a number that is not
  \<open>NaN\<close> prints as a decimal literal or \<open>Infinity\<close> and parses back, while
  \<open>undefined\<close>, \<open>null\<close> and the booleans print as words. \<open>toNumber\<close> is the
  coercion that \<open>/\<close> applies to its left operand.
\<close>

fun parseFloat :: "world \<Rightarrow> jsval \<Rightarrow> jsnum" where
  "parseFloat w (JNum n) = n"
| "parseFloat w (JStr s) = w_parseFloat w s"
| "parseFloat w _ = NaN"

fun toNumber :: "world \<Rightarrow> jsval \<Rightarrow> jsnum" where
  "toNumber w JUndefined = NaN"
| "toNumber w JNull = Num 0"
| "toNumber w (JBool b) = Num (if b then 1 else 0)"
| "toNumber w (JNum n) = n"
| "toNumber w (JStr s) = w_toNumber w s"

fun isNaN :: "jsnum \<Rightarrow> bool" where
  "isNaN NaN = True"
| "isNaN _ = False"

text \<open>Division of a number by a positive finite number.\<close>

fun divide_by :: "jsnum \<Rightarrow> real \<Rightarrow> jsnum" where
  "divide_by (Num x) d = Num (x / d)"
| "divide_by n d = n"

definition getVolume :: "player \<Rightarrow> jsval" where
  "getVolume p = volume p"

definition setVolume :: "world \<Rightarrow> jsval \<Rightarrow> unit js" where
  "setVolume w v =
     (\<lambda>p. if isNaN (parseFloat w v)
           then emitError (VolumeNotParsable v) None p
           else block [
                  assign (\<lambda>p. p\<lparr>volume := v\<rparr>),
                  (\<lambda>p. case gainNode p of None \<Rightarrow> throw TypeError p
                        | Some _ \<Rightarrow> (Inr (), p\<lparr>gainNode := Some (divide_by (toNumber w v) 100)\<rparr>))] p)"

subsection \<open>Sources\<close>

text \<open>
  An array buffer is an object and so truthy whenever it is given; a URL is truthy
  when it is a non-empty string.
\<close>

fun truthy :: "string option \<Rightarrow> bool" where
  "truthy None = False"
| "truthy (Some s) = (s \<noteq> [])"

definition formatMidiName :: "string option \<Rightarrow> string" where
  "formatMidiName name =
     (case name of None \<Rightarrow> []
      | Some n \<Rightarrow> if n = [] then [] else '' '' @ [CHR 0x27] @ n @ [CHR 0x27])"

definition new_AudioContext :: "world \<Rightarrow> audio_context js" where
  "new_AudioContext w = (\<lambda>p.
     (w_newAudioContext w (trace p), record_effect (Called NewAudioContext) p))"

definition initAudioContext :: "world \<Rightarrow> audio_context option \<Rightarrow> bool js" where
  "initAudioContext w audioContext = try_catch
     (andThen (case audioContext of Some c \<Rightarrow> ret c | None \<Rightarrow> new_AudioContext w)
        (\<lambda>c. andThen (assign (\<lambda>p. p\<lparr>ctx := Some c, sampleRate := Some (rate c)\<rparr>))
           (\<lambda>_. ret True)))
     (\<lambda>error. andThen (emitError (Msg ''Could not set AudioContext.'') (Some (Caught error)))
                (\<lambda>_. ret False))"

definition unknown_source :: errmsg where
  "unknown_source = Msg (''Unknown source. URL or array buffer can'' @ [CHR 0x27] @
     ''t be both undefined to start playback.'')"

definition ambiguous_source :: errmsg where
  "ambiguous_source = Msg (''Ambiguous source. MIDI data must originate either from '' @
     ''a URL or an array buffer to start playback. Not both.'')"

definition isSourceValid :: "8 word list option \<Rightarrow> string option \<Rightarrow> bool js" where
  "isSourceValid arrayBuffer url =
     (if arrayBuffer = None \<and> \<not> truthy url
      then andThen (emitError unknown_source None) (\<lambda>_. ret False)
      else if arrayBuffer \<noteq> None \<and> truthy url
      then andThen (emitError ambiguous_source None) (\<lambda>_. ret False)
      else ret True)"

definition fetch :: "world \<Rightarrow> string option \<Rightarrow> int js" where
  "fetch w url = (\<lambda>p.
     let u = (case url of None \<Rightarrow> ''undefined'' | Some s \<Rightarrow> s)
     in (w_fetch w (trace p) u, record_effect (Called (Fetch u)) p))"

definition response_arrayBuffer :: "world \<Rightarrow> 8 word list js" where
  "response_arrayBuffer w = (\<lambda>p.
     (w_arrayBuffer w (trace p), record_effect (Called ResponseArrayBuffer) p))"

text \<open>
  \<open>getSource\<close> returns the promise of \<open>response.arrayBuffer()\<close> without awaiting
  it, so a rejection of that promise is not caught by the \<open>try\<close> around it. The
  result \<open>None\<close> stands for the falsy results \<open>false\<close> and \<open>null\<close>. The \<open>name\<close> in
  its messages is not a variable of the method and is left out of the payload.
\<close>

definition getSource :: "world \<Rightarrow> 8 word list option \<Rightarrow> string option \<Rightarrow> 8 word list option js" where
  "getSource w arrayBuffer url =
     (case arrayBuffer of
        Some data \<Rightarrow> ret (Some data)
      | None \<Rightarrow>
          andThen
            (try_catch
               (andThen (fetch w url)
                  (\<lambda>status. if status \<noteq> 200
                     then andThen (emitError CouldNotRetrieveMidi (Some (StatusCode status)))
                            (\<lambda>_. ret False)
                     else ret True))
               (\<lambda>error. andThen (emitError CouldNotRetrieveMidi (Some (Caught error)))
                          (\<lambda>_. ret False)))
            (\<lambda>ok. if ok then andThen (response_arrayBuffer w) (\<lambda>data. ret (Some data))
                   else ret None))"

subsection \<open>Loading a song\<close>

text \<open>The call of \<open>mid_istream_open_mem\<close> that \<open>handleStream\<close> and \<open>loadSong\<close> both make.\<close>

definition open_mem :: "world \<Rightarrow> int js" where
  "open_mem w = (\<lambda>p. engine w ''mid_istream_open_mem''
     [arg_of (midiFileBuffer p), ANum (int (length (midiFileArray p))), ABool False] p)"

definition handleStream :: "world \<Rightarrow> constants \<Rightarrow> int js" where
  "handleStream w k =
     andThen (\<lambda>p. malloc w (length (midiFileArray p)) p) (\<lambda>buffer.
     andThen (assign (\<lambda>p. p\<lparr>midiFileBuffer := Some buffer\<rparr>)) (\<lambda>_.
     andThen (\<lambda>p. call_void w (WriteArrayToMemory (midiFileArray p) (midiFileBuffer p)) p) (\<lambda>_.
     andThen (engine w ''mid_init'' []) (\<lambda>_.
     andThen (open_mem w) (\<lambda>s.
     andThen (assign (\<lambda>p. p\<lparr>stream := Some s\<rparr>)) (\<lambda>_.
     andThen (\<lambda>p. engine w ''mid_create_options''
                [arg_of (sampleRate p), ANum (MIDI_AUDIO_S16LSB k), ANum 1,
                 ANum (int (MIDI_AUDIO_BUFFER_SIZE k * 2))] p) (\<lambda>options.
     andThen (\<lambda>p. engine w ''mid_song_load'' [arg_of (stream p), ANum options] p) (\<lambda>sg.
     andThen (assign (\<lambda>p. p\<lparr>song := Some sg\<rparr>)) (\<lambda>_.
     andThen (\<lambda>p. engine w ''mid_istream_close'' [arg_of (stream p)] p) (\<lambda>_.
     ret options))))))))))"

text \<open>
  The loop of \<open>getInstrumentPatches\<close> from index \<open>i\<close>: the result is \<open>false\<close> when a
  patch could not be fetched and \<open>undefined\<close> when the loop ran to its end. An
  exception of an engine call leaves the loop. The results of the two calls are
  matched directly, since the recursion goes through them.
\<close>

function patchLoop :: "world \<Rightarrow> int \<Rightarrow> int \<Rightarrow> player \<Rightarrow> (exn + jsval) \<times> player" where
  "patchLoop w missingPatchCount i p =
     (if i < missingPatchCount
      then (case engine_string w ''mid_song_get_missing_instrument''
                   [arg_of (song p), ANum i] p of
              (Inl e, p1) \<Rightarrow> (Inl e, p1)
            | (Inr missingPatch, p1) \<Rightarrow>
                (case call_void w (LoadPatchFromUrl (patchUrl p1) missingPatch) p1 of
                   (Inl error, p2) \<Rightarrow>
                     andThen (emitError (CouldNotRetrievePatch missingPatch i)
                                (Some (Caught error)))
                       (\<lambda>_. ret (JBool False)) p2
                 | (Inr _, p2) \<Rightarrow> patchLoop w missingPatchCount (i + 1) p2))
      else (Inr JUndefined, p))"
  by pat_completeness auto
termination
  by (relation "measure (\<lambda>(w, n, i, p). nat (n - i))") auto

declare patchLoop.simps [simp del]

definition getInstrumentPatches :: "world \<Rightarrow> jsval js" where
  "getInstrumentPatches w =
     andThen (\<lambda>p. engine w ''mid_song_get_num_missing_instruments'' [arg_of (song p)] p)
       (\<lambda>missingPatchCount.
          if missingPatchCount > 0
          then andThen (emit (EvLoadPatch missingPatchCount))
                 (\<lambda>_. patchLoop w missingPatchCount 0)
          else ret JUndefined)"

definition loadSong :: "world \<Rightarrow> constants \<Rightarrow> 8 word list \<Rightarrow> bool js" where
  "loadSong w k arrayBuffer =
     andThen (assign (\<lambda>p. p\<lparr>midiFileArray := arrayBuffer\<rparr>)) (\<lambda>_.
     try_catch
       (andThen (handleStream w k) (\<lambda>options.
        andThen (getInstrumentPatches w) (\<lambda>_.
        andThen (open_mem w) (\<lambda>s.
        andThen (assign (\<lambda>p. p\<lparr>stream := Some s\<rparr>)) (\<lambda>_.
        andThen (\<lambda>p. engine w ''mid_song_load'' [arg_of (stream p), ANum options] p) (\<lambda>sg.
        andThen (assign (\<lambda>p. p\<lparr>song := Some sg\<rparr>)) (\<lambda>_.
        andThen (\<lambda>p. engine w ''mid_istream_close'' [arg_of (stream p)] p) (\<lambda>_.
        ret True))))))))
       (\<lambda>error. andThen (emitError (Msg ''Could not load song.'') (Some (Caught error)))
                  (\<lambda>_. ret False)))"

subsection \<open>Starting playback\<close>

definition createGainNode :: "world \<Rightarrow> unit js" where
  "createGainNode w = block [
     context_call w CreateGain,
     assign (\<lambda>p. p\<lparr>gainNode := Some (divide_by (toNumber w (volume p)) 100)\<rparr>),
     call_void w GainConnectDestination,
     (\<lambda>p. case source p of None \<Rightarrow> throw TypeError p
           | Some _ \<Rightarrow> call_void w SourceConnectGain p)]"

definition connectSource :: "world \<Rightarrow> constants \<Rightarrow> unit js" where
  "connectSource w k = block [
     context_call w (CreateScriptProcessor (MIDI_AUDIO_BUFFER_SIZE k) 0 1),
     assign (\<lambda>p. p\<lparr>source := Some ()\<rparr>),
     createGainNode w]"

definition initPlayback :: "world \<Rightarrow> constants \<Rightarrow> unit js" where
  "initPlayback w k =
     andThen (\<lambda>p. engine w ''mid_song_start'' [arg_of (song p)] p) (\<lambda>_.
     andThen
       (try_catch
          (andThen
             (block [
                connectSource w k,
                andThen (malloc w (MIDI_AUDIO_BUFFER_SIZE k * 2))
                  (\<lambda>buffer. assign (\<lambda>p. p\<lparr>waveBuffer := Some buffer\<rparr>)),
                andThen (context_currentTime w)
                  (\<lambda>now. assign (\<lambda>p. p\<lparr>startTime := now\<rparr>))])
             (\<lambda>_. ret True))
          (\<lambda>error. andThen (emitError (Msg ''Could not initialize playback.'')
                               (Some (Caught error)))
                     (\<lambda>_. ret False)))
       (\<lambda>ok. if ok then emit (EvPlay 0) else ret ()))"

subsection \<open>play\<close>

text \<open>The result is \<open>false\<close> or \<open>undefined\<close>: \<open>initPlayback\<close> returns no value.\<close>

definition play ::
  "world \<Rightarrow> constants \<Rightarrow> 8 word list option \<Rightarrow> string option \<Rightarrow> string option \<Rightarrow>
   audio_context option \<Rightarrow> jsval js" where
  "play w k arrayBuffer url name audioContext =
     andThen (stop w) (\<lambda>_.
     andThen (initAudioContext w audioContext) (\<lambda>initialized.
     if \<not> initialized then ret (JBool False)
     else
     andThen (isSourceValid arrayBuffer url) (\<lambda>valid.
     if \<not> valid then ret (JBool False)
     else
     andThen (emit (EvLoadFile (''Loading'' @ formatMidiName name @ ''...''))) (\<lambda>_.
     andThen (getSource w arrayBuffer url) (\<lambda>data.
     case data of
       None \<Rightarrow> ret (JBool False)
     | Some bytes \<Rightarrow>
         andThen (loadSong w k bytes) (\<lambda>loaded.
         if loaded then andThen (initPlayback w k) (\<lambda>_. ret JUndefined)
         else ret JUndefined))))))"

subsection \<open>preload, emitEvent, setLogger\<close>

text \<open>
  The loop of \<open>preload\<close> over its items, each an array buffer and a URL. Its calls of
  \<open>handleStream\<close> and \<open>getInstrumentPatches\<close> are not inside a \<open>try\<close>.
\<close>

fun preload ::
  "world \<Rightarrow> constants \<Rightarrow> (8 word list option \<times> string option) list \<Rightarrow>
   audio_context option \<Rightarrow> jsval js" where
  "preload w k [] audioContext = ret JUndefined"
| "preload w k ((arrayBuffer, url) # items) audioContext =
     andThen (initAudioContext w audioContext) (\<lambda>initialized.
     if \<not> initialized then ret (JBool False)
     else
     andThen (isSourceValid arrayBuffer url) (\<lambda>valid.
     if \<not> valid then ret (JBool False)
     else
     andThen (getSource w arrayBuffer url) (\<lambda>data.
     case data of
       None \<Rightarrow> ret (JBool False)
     | Some bytes \<Rightarrow>
         andThen (assign (\<lambda>p. p\<lparr>midiFileArray := bytes\<rparr>)) (\<lambda>_.
         andThen (handleStream w k) (\<lambda>_.
         andThen (getInstrumentPatches w) (\<lambda>_.
         preload w k items audioContext))))))"

text \<open>The payload of \<open>emitEvent\<close> is its event name and its message.\<close>

definition emitEvent :: "string option \<Rightarrow> string option \<Rightarrow> unit js" where
  "emitEvent event message = emit (EvCustom event message)"

text \<open>\<open>setLogger\<close> assigns the two fields; the sink's own copy of them is not modelled.\<close>

definition setLogger :: "nat option \<Rightarrow> bool \<Rightarrow> unit js" where
  "setLogger logger verbose =
     assign (\<lambda>p. p\<lparr>eventLogger := logger, logging := verbose\<rparr>)"

subsection \<open>The audio callback\<close>

text \<open>Modelled from the spec: \<open>LibTiMidity.getValue(ptr, 'i16')\<close>, the engine's
  "read-16-bit-value", which reads "a little-endian signed 16-bit value" from its
  memory: the byte at \<open>ptr\<close> is the low byte and the byte at \<open>ptr + 1\<close> the high
  byte.\<close>

definition getValue_i16 :: "(int \<Rightarrow> 8 word) \<Rightarrow> int \<Rightarrow> int" where
  "getValue_i16 heap ptr = sint (word_cat (heap (ptr + 1)) (heap ptr) :: 16 word)"

text \<open>
  \<open>this.waveBuffer + 2 * i\<close>. With the buffer unset the sum is \<open>NaN\<close>, which as an
  index into the engine's memory is 0.
\<close>

fun offset :: "int option \<Rightarrow> nat \<Rightarrow> int" where
  "offset None i = 0"
| "offset (Some buffer) i = buffer + 2 * int i"

text \<open>
  The loop over the samples from slot \<open>i\<close>. The channel data is a typed array: a
  write beyond its length is ignored, as \<open>list_update\<close> does.
\<close>

function fillLoop ::
  "(int \<Rightarrow> 8 word) \<Rightarrow> int option \<Rightarrow> nat \<Rightarrow> int \<Rightarrow> nat \<Rightarrow> real list \<Rightarrow> real list" where
  "fillLoop heap buffer n readWaveBytes i channel =
     (if i < n
      then fillLoop heap buffer n readWaveBytes (i + 1)
             (channel[i := (if int i < readWaveBytes
                            then real_of_int (getValue_i16 heap (offset buffer i)) / MAX_I16
                            else 0)])
      else channel)"
  by pat_completeness auto
termination
  by (relation "measure (\<lambda>(heap, buffer, n, m, i, channel). n - i)") auto

declare fillLoop.simps [simp del]

text \<open>The callback returns the channel data of the output buffer it was given.\<close>

definition handleOutput :: "world \<Rightarrow> constants \<Rightarrow> real list \<Rightarrow> real list js" where
  "handleOutput w k outputBuffer = try_catch
     (andThen (context_currentTime w) (\<lambda>now.
      andThen (\<lambda>p. ret (now - startTime p) p) (\<lambda>time.
      andThen (emit (EvPlay time)) (\<lambda>_.
      andThen (\<lambda>p. engine w ''mid_song_read_wave''
                 [arg_of (song p), arg_of (waveBuffer p),
                  ANum (int (MIDI_AUDIO_BUFFER_SIZE k * 2)), ABool False] p) (\<lambda>readWaveBytes.
      if readWaveBytes = 0
      then andThen (stop w) (\<lambda>_. andThen (emit (EvEnd time)) (\<lambda>_. ret outputBuffer))
      else (\<lambda>p. ret (fillLoop (w_heap w (trace p)) (waveBuffer p) (MIDI_AUDIO_BUFFER_SIZE k)
                         readWaveBytes 0 outputBuffer) p))))))
     (\<lambda>error. andThen (emitError (Msg ''Could not process audio.'') (Some (Caught error)))
                (\<lambda>_. ret outputBuffer))"

subsection \<open>Reading the trace\<close>

definition since :: "player \<Rightarrow> player \<Rightarrow> effect list" where
  "since p p' = drop (length (trace p)) (trace p')"

fun events :: "effect list \<Rightarrow> event list" where
  "events [] = []"
| "events (Emitted e # xs) = e # events xs"
| "events (Called c # xs) = events xs"

fun calls :: "effect list \<Rightarrow> call list" where
  "calls [] = []"
| "calls (Called c # xs) = c # calls xs"
| "calls (Emitted e # xs) = calls xs"

text \<open>The effects of patch resolution, and the engine calls of a stream cycle.\<close>

fun patch_effect :: "effect \<Rightarrow> bool" where
  "patch_effect (Called (Engine name args)) =
     (name = ''mid_song_get_num_missing_instruments'' \<or> name = ''mid_song_get_missing_instrument'')"
| "patch_effect (Called (LoadPatchFromUrl u n)) = True"
| "patch_effect (Emitted (EvLoadPatch n)) = True"
| "patch_effect (Emitted (EvError (CouldNotRetrievePatch n i) d)) = True"
| "patch_effect _ = False"


fun is_call :: "effect \<Rightarrow> bool" where
  "is_call (Called c) = True"
| "is_call (Emitted e) = False"

text \<open>The calls that go to the network.\<close>

fun is_network :: "effect \<Rightarrow> bool" where
  "is_network (Called (Fetch u)) = True"
| "is_network (Called ResponseArrayBuffer) = True"
| "is_network (Called (LoadPatchFromUrl u n)) = True"
| "is_network _ = False"

fun is_end :: "event \<Rightarrow> bool" where
  "is_end (EvEnd t) = True"
| "is_end _ = False"

text \<open>
  What a callback in state \<open>p\<close> computes first: the elapsed time, and the call of
  \<open>mid_song_read_wave\<close> with the world's answer to it.
\<close>

definition elapsed :: "world \<Rightarrow> player \<Rightarrow> real" where
  "elapsed w p = w_currentTime w (trace p) - startTime p"

definition read_wave :: "constants \<Rightarrow> player \<Rightarrow> call" where
  "read_wave k p = Engine ''mid_song_read_wave''
     [arg_of (song p), arg_of (waveBuffer p),
      ANum (int (MIDI_AUDIO_BUFFER_SIZE k * 2)), ABool False]"

definition after_read :: "world \<Rightarrow> constants \<Rightarrow> player \<Rightarrow> player" where
  "after_read w k p =
     p\<lparr>trace := trace p @ [Emitted (EvPlay (elapsed w p)), Called (read_wave k p)]\<rparr>"

definition read_wave_result :: "world \<Rightarrow> constants \<Rightarrow> player \<Rightarrow> exn + int" where
  "read_wave_result w k p =
     w_engine w (trace p @ [Emitted (EvPlay (elapsed w p))]) ''mid_song_read_wave''
       [arg_of (song p), arg_of (waveBuffer p),
        ANum (int (MIDI_AUDIO_BUFFER_SIZE k * 2)), ABool False]"

text \<open>
  \<open>adds P m\<close>: the statement \<open>m\<close> only appends to the trace, and every effect it
  appends satisfies \<open>P\<close>.
\<close>

definition adds :: "(effect \<Rightarrow> bool) \<Rightarrow> 'a js \<Rightarrow> bool" where
  "adds P m = (\<forall>p. \<exists>xs. trace (snd (m p)) = trace p @ xs \<and> list_all P xs)"

text \<open>The effects that \<open>stop\<close> can have.\<close>

fun stop_effect :: "effect \<Rightarrow> bool" where
  "stop_effect (Called ContextClose) = True"
| "stop_effect (Called SourceDisconnect) = True"
| "stop_effect (Called (Free b)) = True"
| "stop_effect (Called (Engine name args)) = (name = ''mid_song_free'' \<or> name = ''mid_exit'')"
| "stop_effect (Emitted EvStop) = True"
| "stop_effect (Emitted (EvError m d)) = (m = Msg ''Could not stop playback.'')"
| "stop_effect _ = False"

text \<open>The value that the loop of the callback writes to slot \<open>i\<close>.\<close>

definition sample :: "(int \<Rightarrow> 8 word) \<Rightarrow> int option \<Rightarrow> int \<Rightarrow> nat \<Rightarrow> real" where
  "sample heap buffer readWaveBytes i =
     (if int i < readWaveBytes
      then real_of_int (getValue_i16 heap (offset buffer i)) / MAX_I16 else 0)"

text \<open>
  A world in which every external call returns. Its conversions of strings agree
  with the language on the strings used below: \<open>parseFloat\<close> reads the longest numeric
  prefix (\<open>'50'\<close> is 50, \<open>'12px'\<close> is 12, \<open>'abc'\<close> is \<open>NaN\<close>), the coercion to a
  number reads the whole string (\<open>'50'\<close> is 50, \<open>'12px'\<close> and \<open>'abc'\<close> are \<open>NaN\<close>).
\<close>

definition calm :: world where
  "calm = \<lparr>w_engine = (\<lambda>h name args. Inr 0),
     w_engine_string = (\<lambda>h name args. Inr ''piano''),
     w_malloc = (\<lambda>h n. Inr (64 * int (length h))),
     w_void = (\<lambda>h c. None),
     w_fetch = (\<lambda>h url. Inr 200),
     w_arrayBuffer = (\<lambda>h. Inr []),
     w_newAudioContext = (\<lambda>h. Inr (AudioContext 44100)),
     w_currentTime = (\<lambda>h. 0),
     w_heap = (\<lambda>h a. 0),
     w_parseFloat = (\<lambda>s. if s = ''50'' then Num 50 else if s = ''12px'' then Num 12 else NaN),
     w_toNumber = (\<lambda>s. if s = ''50'' then Num 50 else NaN)\<rparr>"

text \<open>A set of constants and the instance after construction, for concrete runs.\<close>

definition small :: constants where
  "small = \<lparr>MIDI_AUDIO_BUFFER_SIZE = 4, MIDI_AUDIO_S16LSB = 32784\<rparr>"

definition fresh :: player where
  "fresh = MidiPlayer calm True None False ''patches/'' (JNum (Num 80))"


definition playing :: player where
  "playing = snd (play calm small (Some [1, 2]) None None (Some (AudioContext 44100)) fresh)"

text \<open>
  A world whose engine produces three bytes on every read and whose memory holds the
  bytes \<open>0x34\<close>, \<open>0x12\<close> at addresses 1282 and 1283.
\<close>

definition sounding :: world where
  "sounding = calm\<lparr>
     w_engine := (\<lambda>h name args. if name = ''mid_song_read_wave'' then Inr 3 else Inr 0),
     w_heap := (\<lambda>h a. if a = 1282 then 0x34 else if a = 1283 then 0x12 else 0)\<rparr>"

text \<open>
  A world whose song misses two instruments and in which no patch can be fetched.
\<close>

definition patchless :: world where
  "patchless = calm\<lparr>
     w_engine := (\<lambda>h name args.
        if name = ''mid_song_get_num_missing_instruments'' then Inr 2 else Inr 0),
     w_void := (\<lambda>h c. case c of LoadPatchFromUrl u n \<Rightarrow> Some (Thrown ''404'') | _ \<Rightarrow> None)\<rparr>"

text \<open>
  A world in which closing the audio context throws the first time it is tried and
  returns afterwards.
\<close>

definition jammed :: world where
  "jammed = calm\<lparr>
     w_void := (\<lambda>h c. if c = ContextClose \<and> Called ContextClose \<notin> set h
                        then Some (Thrown ''InvalidStateError'') else None)\<rparr>"

text \<open>
  The public operations other than the constructor and \<open>setVolume\<close>, and the audio
  callback; \<open>later w k ops p\<close> is the instance after they have run in order, each to
  its return or to its exception.
\<close>

datatype operation =
    DoPlay "8 word list option" "string option" "string option" "audio_context option"
  | DoPreload "(8 word list option \<times> string option) list" "audio_context option"
  | DoPause
  | DoResume
  | DoStop
  | DoEmitEvent "string option" "string option"
  | DoSetLogger "nat option" bool
  | DoCallback "real list"

fun perform :: "world \<Rightarrow> constants \<Rightarrow> operation \<Rightarrow> player \<Rightarrow> player" where
  "perform w k (DoPlay arrayBuffer url name audioContext) p =
     snd (play w k arrayBuffer url name audioContext p)"
| "perform w k (DoPreload items audioContext) p = snd (preload w k items audioContext p)"
| "perform w k DoPause p = snd (pause w p)"
| "perform w k DoResume p = snd (resume w p)"
| "perform w k DoStop p = snd (stop w p)"
| "perform w k (DoEmitEvent event message) p = snd (emitEvent event message p)"
| "perform w k (DoSetLogger logger verbose) p = snd (setLogger logger verbose p)"
| "perform w k (DoCallback outputBuffer) p = snd (handleOutput w k outputBuffer p)"

fun later :: "world \<Rightarrow> constants \<Rightarrow> operation list \<Rightarrow> player \<Rightarrow> player" where
  "later w k [] p = p"
| "later w k (x # xs) p = later w k xs (perform w k x p)"

text \<open>\<open>keeps f m\<close>: the statement \<open>m\<close> leaves the field \<open>f\<close> as it was.\<close>

definition keeps :: "(player \<Rightarrow> 'b) \<Rightarrow> 'a js \<Rightarrow> bool" where
  "keeps f m = (\<forall>p. f (snd (m p)) = f p)"

section \<open>Properties\<close>

lemmas js_defs = ret_def throw_def andThen_def try_catch_def assign_def record_effect_def
  emit_def emitError_def call_void_def engine_def engine_string_def malloc_def
  context_call_def context_currentTime_def

lemma throw_apply [simp]: "throw e p = (Inl e, p)"
  by (simp add: throw_def)

lemma fresh_eq:
  "fresh = blank\<lparr>patchUrl := ''patches/'', volume := JNum (Num 80),
     trace := [Called (Init True), Emitted EvInit]\<rparr>"
  by (simp add: fresh_def MidiPlayer_def js_defs calm_def blank_def)

lemmas run_defs = play_def initAudioContext_def isSourceValid_def getSource_def loadSong_def
  handleStream_def open_mem_def getInstrumentPatches_def initPlayback_def connectSource_def
  createGainNode_def stop_def disconnectSource_def freeMemory_def formatMidiName_def


lemma playing_eq:
  "playing = \<lparr>eventLogger = None, logging = False, ctx = Some (AudioContext 44100), sampleRate = Some 44100, source = Some (),
     gainNode = Some (Num (4 / 5)), song = Some 0, stream = Some 0, midiFileArray = [1, 2],
     midiFileBuffer = Some 256, waveBuffer = Some 1280, startTime = 0,
     volume = JNum (Num 80), patchUrl = ''patches/'',
     trace =
       [Called (Init True), Emitted EvInit, Emitted EvStop, Emitted (EvLoadFile ''Loading...''),
        Called (Malloc 2), Called (WriteArrayToMemory [1, 2] (Some 256)),
        Called (Engine ''mid_init'' []),
        Called (Engine ''mid_istream_open_mem'' [ANum 256, ANum 2, ABool False]),
        Called (Engine ''mid_create_options'' [ANum 44100, ANum 32784, ANum 1, ANum 8]),
        Called (Engine ''mid_song_load'' [ANum 0, ANum 0]),
        Called (Engine ''mid_istream_close'' [ANum 0]),
        Called (Engine ''mid_song_get_num_missing_instruments'' [ANum 0]),
        Called (Engine ''mid_istream_open_mem'' [ANum 256, ANum 2, ABool False]),
        Called (Engine ''mid_song_load'' [ANum 0, ANum 0]),
        Called (Engine ''mid_istream_close'' [ANum 0]),
        Called (Engine ''mid_song_start'' [ANum 0]),
        Called (CreateScriptProcessor 4 0 1), Called CreateGain,
        Called GainConnectDestination, Called SourceConnectGain,
        Called (Malloc 8), Emitted (EvPlay 0)]\<rparr>"
  by (simp add: playing_def run_defs js_defs fresh_eq blank_def calm_def small_def)

subsection \<open>Inversion of a normal return\<close>

lemma ret_Inr: "ret x p = (Inr y, q) \<longleftrightarrow> y = x \<and> q = p"
  by (auto simp add: ret_def)

lemma assign_Inr: "assign f p = (Inr u, q) \<longleftrightarrow> q = f p"
  by (auto simp add: assign_def)

lemma emit_Inr: "emit e p = (Inr u, q) \<longleftrightarrow> q = record_effect (Emitted e) p"
  by (auto simp add: emit_def)

lemma call_void_Inr:
  "call_void w c p = (Inr u, q) \<longleftrightarrow> w_void w (trace p) c = None \<and> q = record_effect (Called c) p"
  by (auto simp add: call_void_def split: option.splits)

lemma context_call_Inr:
  "context_call w c p = (Inr u, q) \<longleftrightarrow>
     ctx p \<noteq> None \<and> w_void w (trace p) c = None \<and> q = record_effect (Called c) p"
  by (auto simp add: context_call_def call_void_def split: option.splits)

lemma engine_Inr:
  "engine w name args p = (Inr x, q) \<longleftrightarrow>
     w_engine w (trace p) name args = Inr x \<and> q = record_effect (Called (Engine name args)) p"
  by (auto simp add: engine_def)

lemma malloc_Inr:
  "malloc w n p = (Inr x, q) \<longleftrightarrow>
     w_malloc w (trace p) n = Inr x \<and> q = record_effect (Called (Malloc n)) p"
  by (auto simp add: malloc_def)

lemma andThen_Inr:
  "andThen m f p = (Inr y, q) \<longleftrightarrow> (\<exists>x p1. m p = (Inr x, p1) \<and> f x p1 = (Inr y, q))"
  by (cases "m p") (auto simp add: andThen_def split: sum.splits)

lemma block_Nil_Inr: "block [] p = (Inr u, q) \<longleftrightarrow> q = p"
  by (auto simp add: ret_def)

lemma block_Cons_Inr:
  "block (m # ms) p = (Inr u, q) \<longleftrightarrow> (\<exists>p1. m p = (Inr (), p1) \<and> block ms p1 = (Inr (), q))"
  by (auto simp add: andThen_Inr)

lemma try_catch_Inr:
  "try_catch m h p = (Inr y, q) \<longleftrightarrow>
     m p = (Inr y, q) \<or> (\<exists>e p1. m p = (Inl e, p1) \<and> h e p1 = (Inr y, q))"
  by (cases "m p") (auto simp add: try_catch_def split: sum.splits)

lemmas Inr_simps = ret_Inr assign_Inr emit_Inr call_void_Inr context_call_Inr engine_Inr
  malloc_Inr andThen_Inr block_Nil_Inr block_Cons_Inr try_catch_Inr

subsection \<open>What a statement adds to the trace\<close>

lemma addsI: "(\<And>p. \<exists>xs. trace (snd (m p)) = trace p @ xs \<and> list_all P xs) \<Longrightarrow> adds P m"
  by (simp add: adds_def)

lemma addsD: "adds P m \<Longrightarrow> \<exists>xs. trace (snd (m p)) = trace p @ xs \<and> list_all P xs"
  by (simp add: adds_def)

lemma adds_since:
  assumes "adds P m"
  shows "trace (snd (m p)) = trace p @ since p (snd (m p)) \<and> list_all P (since p (snd (m p)))"
  using addsD [OF assms, of p] by (auto simp add: since_def)

lemma adds_ret: "adds P (ret x)"
  by (simp add: adds_def ret_def)

lemma adds_assign: "(\<And>p. trace (f p) = trace p) \<Longrightarrow> adds P (assign f)"
  by (simp add: adds_def assign_def)

lemma adds_emit: "P (Emitted e) \<Longrightarrow> adds P (emit e)"
  by (simp add: adds_def emit_def record_effect_def)

lemma adds_emitError: "P (Emitted (EvError m d)) \<Longrightarrow> adds P (emitError m d)"
  by (simp add: emitError_def adds_emit)

lemma adds_andThen:
  assumes "adds P m" and "\<And>x. adds P (f x)"
  shows "adds P (andThen m f)"
proof (rule addsI)
  fix p
  obtain xs where xs: "trace (snd (m p)) = trace p @ xs" "list_all P xs"
    using addsD [OF assms(1)] by blast
  show "\<exists>zs. trace (snd (andThen m f p)) = trace p @ zs \<and> list_all P zs"
  proof (cases "m p")
    case (Pair r q)
    show ?thesis
    proof (cases r)
      case (Inl e)
      then show ?thesis using Pair xs by (auto simp add: andThen_def)
    next
      case (Inr x)
      obtain ys where ys: "trace (snd (f x q)) = trace q @ ys" "list_all P ys"
        using addsD [OF assms(2)] by blast
      then show ?thesis using Pair Inr xs by (auto simp add: andThen_def)
    qed
  qed
qed

lemma adds_try_catch:
  assumes "adds P m" and "\<And>e. adds P (h e)"
  shows "adds P (try_catch m h)"
proof (rule addsI)
  fix p
  obtain xs where xs: "trace (snd (m p)) = trace p @ xs" "list_all P xs"
    using addsD [OF assms(1)] by blast
  show "\<exists>zs. trace (snd (try_catch m h p)) = trace p @ zs \<and> list_all P zs"
  proof (cases "m p")
    case (Pair r q)
    show ?thesis
    proof (cases r)
      case (Inr x)
      then show ?thesis using Pair xs by (auto simp add: try_catch_def)
    next
      case (Inl e)
      obtain ys where ys: "trace (snd (h e q)) = trace q @ ys" "list_all P ys"
        using addsD [OF assms(2)] by blast
      then show ?thesis using Pair Inl xs by (auto simp add: try_catch_def)
    qed
  qed
qed

lemma adds_block_Nil: "adds P (block [])"
  by (simp add: adds_ret)

lemma adds_block_Cons: "adds P m \<Longrightarrow> adds P (block ms) \<Longrightarrow> adds P (block (m # ms))"
  by (simp add: adds_andThen)

lemma adds_engine: "P (Called (Engine name args)) \<Longrightarrow> adds P (engine w name args)"
  by (simp add: adds_def engine_def record_effect_def)

lemma adds_context_call: "P (Called c) \<Longrightarrow> adds P (context_call w c)"
  by (simp add: adds_def context_call_def call_void_def record_effect_def split: option.splits)

subsection \<open>Lemmas on traces\<close>

lemma since_append: "trace q = trace p @ xs \<Longrightarrow> since p q = xs"
  by (simp add: since_def)

lemma events_append: "events (xs @ ys) = events xs @ events ys"
  by (induction xs rule: events.induct) simp_all


subsection \<open>Lemmas on stop\<close>

lemma adds_disconnectSource: "adds stop_effect (disconnectSource w)"
  unfolding disconnectSource_def
  by (intro adds_block_Cons adds_block_Nil adds_assign)
     (simp_all add: adds_def call_void_def record_effect_def split: option.splits)

lemma adds_freeMemory: "adds stop_effect (freeMemory w)"
  unfolding freeMemory_def
  by (intro adds_block_Cons adds_block_Nil)
     (simp_all add: adds_def js_defs split: sum.splits)

lemma adds_release:
  "adds stop_effect (block [context_call w ContextClose, disconnectSource w, freeMemory w,
      andThen (engine w ''mid_exit'' []) (\<lambda>_. ret ()), assign (\<lambda>p. p\<lparr>song := Some 0\<rparr>)])"
  by (intro adds_block_Cons adds_block_Nil adds_andThen adds_ret adds_context_call adds_engine
      adds_assign adds_disconnectSource adds_freeMemory) simp_all

lemma adds_stop: "adds stop_effect (stop w)"
  unfolding stop_def
proof (intro adds_try_catch adds_andThen adds_block_Cons adds_block_Nil adds_ret adds_emit
    adds_emitError adds_assign)
  show "adds stop_effect (\<lambda>p. if source p \<noteq> None
          then block [context_call w ContextClose, disconnectSource w, freeMemory w,
                 andThen (engine w ''mid_exit'' []) (\<lambda>_. ret ()),
                 assign (\<lambda>p. p\<lparr>song := Some 0\<rparr>)] p
          else ret () p)"
  proof (rule addsI)
    fix p
    show "\<exists>xs. trace (snd (if source p \<noteq> None
          then block [context_call w ContextClose, disconnectSource w, freeMemory w,
                 andThen (engine w ''mid_exit'' []) (\<lambda>_. ret ()),
                 assign (\<lambda>p. p\<lparr>song := Some 0\<rparr>)] p
          else ret () p)) = trace p @ xs \<and> list_all stop_effect xs"
      using addsD [OF adds_release, of w p] by (simp add: ret_def)
  qed
qed simp_all

lemma stop_returns: "\<exists>b q. stop w p = (Inr b, q)"
proof -
  have "\<exists>b q. try_catch m (\<lambda>error. andThen (emitError (Msg ''Could not stop playback.'') (Some (Caught error)))
                (\<lambda>_. ret False)) p = (Inr b, q)" for m :: "bool js"
    by (cases "m p") (auto simp add: try_catch_def js_defs split: sum.splits)
  then show ?thesis unfolding stop_def by blast
qed

lemma stop_True:
  assumes "stop w p = (Inr True, q)"
  shows "source q = None \<and> startTime q = 0"
  using assms unfolding stop_def disconnectSource_def freeMemory_def emitError_def block.simps
  by (cases "source p") (auto simp add: Inr_simps record_effect_def split: if_splits option.splits)

lemma stop_idle:
  "source p = None \<Longrightarrow>
   stop w p = (Inr True, p\<lparr>startTime := 0, trace := trace p @ [Emitted EvStop]\<rparr>)"
  by (simp add: stop_def js_defs)

lemma stop_live:
  assumes "source p \<noteq> None" and "stop w p = (Inr True, q)"
  shows "q = p\<lparr>source := None, song := Some 0, startTime := 0,
    trace := trace p @
      [Called ContextClose, Called SourceDisconnect, Called (Free (waveBuffer p)),
       Called (Free (midiFileBuffer p)), Called (Engine ''mid_song_free'' [arg_of (song p)]),
       Called (Engine ''mid_exit'' []), Emitted EvStop]\<rparr>"
  using assms unfolding stop_def disconnectSource_def freeMemory_def emitError_def block.simps
  by (auto simp add: Inr_simps record_effect_def split: if_splits option.splits)

lemma is_call_events: "list_all is_call xs \<Longrightarrow> events xs = []"
  by (induction xs rule: events.induct) simp_all

lemma adds_release_calls:
  "adds is_call (block [context_call w ContextClose, disconnectSource w, freeMemory w,
      andThen (engine w ''mid_exit'' []) (\<lambda>_. ret ()), assign (\<lambda>p. p\<lparr>song := Some 0\<rparr>)])"
  unfolding disconnectSource_def freeMemory_def
  by (intro adds_block_Cons adds_block_Nil adds_andThen adds_ret adds_context_call adds_engine
      adds_assign)
     (simp_all add: adds_def js_defs split: option.splits sum.splits)

lemma stop_events:
  "\<exists>b e. fst (stop w p) = Inr b \<and>
     events (since p (snd (stop w p))) =
       [if b then EvStop else EvError (Msg ''Could not stop playback.'') (Some (Caught e))]"
proof -
  let ?release = "block [context_call w ContextClose, disconnectSource w, freeMemory w,
      andThen (engine w ''mid_exit'' []) (\<lambda>_. ret ()), assign (\<lambda>p. p\<lparr>song := Some 0\<rparr>)]"
  let ?first = "\<lambda>p. if source p \<noteq> None then ?release p else ret () p"
  obtain r q where fq: "?first p = (r, q)"
    by (cases "?first p") blast
  have "\<exists>xs. trace q = trace p @ xs \<and> list_all is_call xs"
  proof (cases "source p")
    case None
    then show ?thesis using fq by (simp add: ret_def)
  next
    case (Some u)
    then have "?release p = (r, q)" using fq by simp
    then show ?thesis using addsD [OF adds_release_calls, of w p] by simp
  qed
  then obtain xs where xs: "trace q = trace p @ xs" "list_all is_call xs"
    by blast
  show ?thesis
  proof (cases r)
    case (Inl e)
    have "stop w p = (Inr False, q\<lparr>trace := trace q @
        [Emitted (EvError (Msg ''Could not stop playback.'') (Some (Caught e)))]\<rparr>)"
      using fq Inl unfolding stop_def block.simps
      by (simp add: js_defs)
    then have "fst (stop w p) = Inr False" and
      "since p (snd (stop w p)) =
        xs @ [Emitted (EvError (Msg ''Could not stop playback.'') (Some (Caught e)))]"
      using xs(1) by (simp_all add: since_def)
    then show ?thesis
      using is_call_events [OF xs(2)] by (auto simp add: events_append)
  next
    case (Inr u)
    have "stop w p = (Inr True, q\<lparr>startTime := 0, trace := trace q @ [Emitted EvStop]\<rparr>)"
      using fq Inr unfolding stop_def block.simps
      by (simp add: js_defs)
    then have "fst (stop w p) = Inr True" and
      "since p (snd (stop w p)) = xs @ [Emitted EvStop]"
      using xs(1) by (simp_all add: since_def)
    then show ?thesis
      using is_call_events [OF xs(2)] by (auto simp add: events_append)
  qed
qed

lemma stop_effect_no_end: "list_all stop_effect xs \<Longrightarrow> filter is_end (events xs) = []"
  by (induction xs rule: events.induct) (auto elim: stop_effect.elims)

subsection \<open>Lemmas on the audio callback\<close>

lemma fillLoop_length: "length (fillLoop heap buffer n m i channel) = length channel"
proof (induction heap buffer n m i channel rule: fillLoop.induct)
  case (1 heap buffer n m i channel)
  show ?case
  proof (cases "i < n")
    case True
    then show ?thesis using 1 by (subst fillLoop.simps) simp
  next
    case False
    then show ?thesis by (subst fillLoop.simps) simp
  qed
qed

lemma fillLoop_nth:
  "j < length channel \<Longrightarrow>
   fillLoop heap buffer n m i channel ! j =
     (if i \<le> j \<and> j < n then sample heap buffer m j else channel ! j)"
proof (induction heap buffer n m i channel rule: fillLoop.induct)
  case (1 heap buffer n m i channel)
  show ?case
  proof (cases "i < n")
    case True
    then show ?thesis using 1
      by (subst fillLoop.simps) (cases "j = i"; simp add: sample_def)
  next
    case False
    then show ?thesis by (subst fillLoop.simps) simp
  qed
qed

lemma getValue_i16_range: "- 32768 \<le> getValue_i16 heap a \<and> getValue_i16 heap a \<le> 32767"
proof -
  have "- (2 ^ (LENGTH(16) - 1)) \<le> sint (word_cat (heap (a + 1)) (heap a) :: 16 word)"
    by (rule sint_ge)
  moreover have "sint (word_cat (heap (a + 1)) (heap a) :: 16 word) < 2 ^ (LENGTH(16) - 1)"
    by (rule sint_lt)
  ultimately show ?thesis by (simp add: getValue_i16_def)
qed

lemma sample_range: "- 32768 / 32767 \<le> sample heap buffer m i \<and> sample heap buffer m i \<le> 1"
proof -
  have "- 32768 \<le> real_of_int (getValue_i16 heap (offset buffer i))"
    and "real_of_int (getValue_i16 heap (offset buffer i)) \<le> 32767"
    using getValue_i16_range [of heap "offset buffer i"] by linarith+
  then show ?thesis
    by (simp add: sample_def MAX_I16_def divide_le_cancel)
qed

lemma handleOutput_positive:
  assumes "ctx p = Some c" and "read_wave_result w k p = Inr n" and "n \<noteq> 0"
  shows "handleOutput w k out p =
    (Inr (fillLoop (w_heap w (trace (after_read w k p))) (waveBuffer p)
            (MIDI_AUDIO_BUFFER_SIZE k) n 0 out),
     after_read w k p)"
  using assms
  by (simp add: handleOutput_def read_wave_result_def after_read_def read_wave_def elapsed_def
      js_defs)

lemma handleOutput_zero:
  assumes "ctx p = Some c" and "read_wave_result w k p = Inr 0"
  shows "handleOutput w k out p =
    (Inr out, record_effect (Emitted (EvEnd (elapsed w p))) (snd (stop w (after_read w k p))))"
proof -
  obtain b q where s: "stop w (after_read w k p) = (Inr b, q)"
    using stop_returns by blast
  show ?thesis
    using assms s
    by (simp add: handleOutput_def read_wave_result_def after_read_def read_wave_def elapsed_def
        ret_def andThen_def try_catch_def record_effect_def context_currentTime_def emit_def
        engine_def)
qed

subsection \<open>stop with no session\<close>

text \<open>
  C6. \<open>stop()\<close> called while no output stage is live (\<open>this.source\<close> unset or
  \<open>null\<close>) returns \<open>true\<close>, and all it adds to the trace is one stop event: no
  context close, no disconnect, no free and no engine call.
\<close>

theorem stop_without_session:
  assumes "source p = None"
  shows "stop w p = (Inr True, p\<lparr>startTime := 0, trace := trace p @ [Emitted EvStop]\<rparr>)
    \<and> since p (snd (stop w p)) = [Emitted EvStop]
    \<and> calls (since p (snd (stop w p))) = []"
  using assms by (simp add: stop_def js_defs since_def)

theorem stop_without_session_witness:
  "source fresh = None
    \<and> stop calm fresh = (Inr True, fresh\<lparr>startTime := 0, trace := trace fresh @ [Emitted EvStop]\<rparr>)
    \<and> since fresh (snd (stop calm fresh)) = [Emitted EvStop]
    \<and> calls (since fresh (snd (stop calm fresh))) = []"
proof -
  have h: "source fresh = None"
    by (simp add: fresh_eq blank_def)
  show ?thesis
    using h stop_without_session [OF h, of calm] by (simp add: since_def)
qed

subsection \<open>pause and resume\<close>



subsection \<open>Volume\<close>



lemma stop_volume: "volume (snd (stop w p)) = volume p"
  by (simp add: stop_def disconnectSource_def freeMemory_def js_defs
      split: option.splits sum.splits)

lemma pause_volume: "volume (snd (pause w p)) = volume p"
  by (simp add: pause_def js_defs split: option.splits sum.splits)

lemma resume_volume: "volume (snd (resume w p)) = volume p"
  by (simp add: resume_def js_defs split: option.splits sum.splits)


text \<open>
  C2. The claim that no public operation throws fails for \<open>setVolume\<close>: on a newly
  constructed instance, which has no gain node, \<open>setVolume({ volume: 50 })\<close> stores
  the volume and then throws a \<open>TypeError\<close>, emitting nothing.
\<close>

theorem setVolume_throws_without_gain_node:
  "gainNode fresh = None
   \<and> \<not> isNaN (parseFloat calm (JNum (Num 50)))
   \<and> fst (setVolume calm (JNum (Num 50)) fresh) = Inl TypeError
   \<and> volume (snd (setVolume calm (JNum (Num 50)) fresh)) = JNum (Num 50)
   \<and> since fresh (snd (setVolume calm (JNum (Num 50)) fresh)) = []"
  by (simp add: fresh_eq blank_def setVolume_def js_defs since_def)

subsection \<open>The audio callback\<close>

text \<open>
  C3. In a callback in which the engine reports \<open>n > 0\<close> bytes, the callback
  returns without an exception and every slot \<open>i\<close> below the chunk size of the
  output buffer holds: when \<open>i < n\<close>, the signed little-endian 16-bit value at
  offset \<open>2 * i\<close> of the scratch buffer divided by 32767, and otherwise 0. The value
  lies between \<open>-32768 / 32767\<close> (about \<open>-1.00003\<close>, so within the claim's
  \<open>-1.0007\<close>) and 1. Numbers are exact here: the rounding of the division and of the
  store into a 32-bit float array is outside the model.
\<close>

theorem handleOutput_samples:
  assumes "ctx p = Some c"
    and "read_wave_result w k p = Inr n" and "0 < n"
    and "waveBuffer p = Some buffer"
    and "i < MIDI_AUDIO_BUFFER_SIZE k" and "i < length out"
  shows "\<exists>out'. handleOutput w k out p = (Inr out', after_read w k p)
    \<and> length out' = length out
    \<and> out' ! i =
        (if int i < n
         then real_of_int (getValue_i16 (w_heap w (trace (after_read w k p)))
                (buffer + 2 * int i)) / 32767
         else 0)
    \<and> - 32768 / 32767 \<le> out' ! i \<and> out' ! i \<le> 1
    \<and> - 10007 / 10000 \<le> out' ! i"
proof -
  let ?heap = "w_heap w (trace (after_read w k p))"
  let ?out = "fillLoop ?heap (waveBuffer p) (MIDI_AUDIO_BUFFER_SIZE k) n 0 out"
  have run: "handleOutput w k out p = (Inr ?out, after_read w k p)"
    using assms(1-3) by (simp add: handleOutput_positive)
  have slot: "?out ! i = sample ?heap (Some buffer) n i"
    using assms(4-6) by (simp add: fillLoop_nth)
  have "sample ?heap (Some buffer) n i =
      (if int i < n then real_of_int (getValue_i16 ?heap (buffer + 2 * int i)) / 32767 else 0)"
    by (simp add: sample_def MAX_I16_def)
  moreover have range: "- 32768 / 32767 \<le> sample ?heap (Some buffer) n i
      \<and> sample ?heap (Some buffer) n i \<le> 1"
    by (rule sample_range)
  moreover have "- 10007 / 10000 \<le> sample ?heap (Some buffer) n i"
    using range by simp
  ultimately show ?thesis
    using run slot fillLoop_length [of ?heap "waveBuffer p" "MIDI_AUDIO_BUFFER_SIZE k" n 0 out]
    by simp
qed

theorem handleOutput_samples_witness:
  "ctx playing = Some (AudioContext 44100)
   \<and> read_wave_result sounding small playing = Inr 3
   \<and> waveBuffer playing = Some 1280
   \<and> (\<exists>out'. fst (handleOutput sounding small [0, 0, 0, 0] playing) = Inr out'
        \<and> out' ! 1 = 4660 / 32767 \<and> out' ! 3 = 0)"
proof -
  have a: "ctx playing = Some (AudioContext 44100)"
    by (simp add: playing_eq)
  have b: "read_wave_result sounding small playing = Inr 3"
    by (simp add: read_wave_result_def sounding_def)
  have c: "waveBuffer playing = Some 1280"
    by (simp add: playing_eq)
  have v: "getValue_i16 (w_heap sounding h) 1282 = 4660" for h
    by (simp add: getValue_i16_def sounding_def word_cat_eq)
  show ?thesis
    using a b c
      handleOutput_samples [OF a b _ c, of 1 "[0, 0, 0, 0]"]
      handleOutput_samples [OF a b _ c, of 3 "[0, 0, 0, 0]"]
    by (auto simp add: small_def v)
qed

text \<open>
  C5, as the code has it. In a callback in which the engine reports 0 bytes, the
  callback returns the output buffer as it was given; it calls \<open>stop()\<close> after the
  read and then emits an end event; the end events of the callback are exactly that
  one, and it carries the clock minus the start time as read at the beginning of the
  callback. The events of the callback are the play event, the stop event of a
  \<open>stop()\<close> that returns \<open>true\<close> or the error event of one that returns \<open>false\<close>, and
  the end event. When that \<open>stop()\<close> returns \<open>true\<close> with the output stage live, it
  has closed the context, disconnected the stage, freed the scratch buffer and the
  MIDI buffer, freed the song and called \<open>mid_exit\<close>, in this order, and the instance
  differs from the one before the callback in that the stage is cleared, the song
  handle is 0 and the start time is 0. When it returns \<open>true\<close>, a further \<open>stop()\<close>
  returns \<open>true\<close> and adds one stop event and no call.
\<close>

theorem handleOutput_end_of_stream:
  assumes "ctx p = Some c" and "read_wave_result w k p = Inr 0"
  shows "fst (handleOutput w k out p) = Inr out
    \<and> snd (handleOutput w k out p) =
        record_effect (Emitted (EvEnd (elapsed w p))) (snd (stop w (after_read w k p)))
    \<and> filter is_end (events (since p (snd (handleOutput w k out p)))) = [EvEnd (elapsed w p)]
    \<and> (\<exists>b e. fst (stop w (after_read w k p)) = Inr b
          \<and> events (since p (snd (handleOutput w k out p))) =
              [EvPlay (elapsed w p),
               if b then EvStop
               else EvError (Msg ''Could not stop playback.'') (Some (Caught e)),
               EvEnd (elapsed w p)])
    \<and> (source p \<noteq> None \<and> fst (stop w (after_read w k p)) = Inr True \<longrightarrow>
          snd (handleOutput w k out p) =
            p\<lparr>source := None, song := Some 0, startTime := 0,
              trace := trace p @
                [Emitted (EvPlay (elapsed w p)), Called (read_wave k p),
                 Called ContextClose, Called SourceDisconnect,
                 Called (Free (waveBuffer p)), Called (Free (midiFileBuffer p)),
                 Called (Engine ''mid_song_free'' [arg_of (song p)]),
                 Called (Engine ''mid_exit'' []),
                 Emitted EvStop, Emitted (EvEnd (elapsed w p))]\<rparr>)
    \<and> (fst (stop w (after_read w k p)) = Inr True \<longrightarrow>
          source (snd (handleOutput w k out p)) = None
          \<and> startTime (snd (handleOutput w k out p)) = 0
          \<and> fst (stop w' (snd (handleOutput w k out p))) = Inr True
          \<and> since (snd (handleOutput w k out p)) (snd (stop w' (snd (handleOutput w k out p))))
              = [Emitted EvStop])"
proof -
  let ?p1 = "after_read w k p"
  let ?q = "snd (stop w ?p1)"
  let ?p' = "record_effect (Emitted (EvEnd (elapsed w p))) ?q"
  have run: "handleOutput w k out p = (Inr out, ?p')"
    using assms by (rule handleOutput_zero)
  have tr: "trace ?q = trace ?p1 @ since ?p1 ?q" and eff: "list_all stop_effect (since ?p1 ?q)"
    using adds_since [OF adds_stop, of w ?p1] by simp_all
  have none: "filter is_end (events (since ?p1 ?q)) = []"
    using eff by (rule stop_effect_no_end)
  have "trace ?p' = trace p @ ([Emitted (EvPlay (elapsed w p)), Called (read_wave k p)]
      @ since ?p1 ?q @ [Emitted (EvEnd (elapsed w p))])"
    by (subst record_effect_def, simp, subst tr, simp add: after_read_def)
  then have whole: "since p ?p' = [Emitted (EvPlay (elapsed w p)), Called (read_wave k p)]
      @ since ?p1 ?q @ [Emitted (EvEnd (elapsed w p))]"
    by (rule since_append)
  then have one: "filter is_end (events (since p ?p')) = [EvEnd (elapsed w p)]"
    using none by (simp add: events_append)
  obtain b e where b: "fst (stop w ?p1) = Inr b" and
    ev: "events (since ?p1 ?q) =
      [if b then EvStop else EvError (Msg ''Could not stop playback.'') (Some (Caught e))]"
    using stop_events [of w ?p1] by blast
  have "events (since p ?p') =
      [EvPlay (elapsed w p),
       if b then EvStop else EvError (Msg ''Could not stop playback.'') (Some (Caught e)),
       EvEnd (elapsed w p)]"
    unfolding whole events_append ev by simp
  then have three: "\<exists>b e. fst (stop w ?p1) = Inr b
      \<and> events (since p ?p') =
          [EvPlay (elapsed w p),
           if b then EvStop else EvError (Msg ''Could not stop playback.'') (Some (Caught e)),
           EvEnd (elapsed w p)]"
    using b by blast
  have live: "?p' =
      p\<lparr>source := None, song := Some 0, startTime := 0,
        trace := trace p @
          [Emitted (EvPlay (elapsed w p)), Called (read_wave k p),
           Called ContextClose, Called SourceDisconnect,
           Called (Free (waveBuffer p)), Called (Free (midiFileBuffer p)),
           Called (Engine ''mid_song_free'' [arg_of (song p)]),
           Called (Engine ''mid_exit'' []),
           Emitted EvStop, Emitted (EvEnd (elapsed w p))]\<rparr>"
    if "source p \<noteq> None" and "fst (stop w ?p1) = Inr True"
  proof -
    have s: "stop w ?p1 = (Inr True, ?q)"
      using that(2) by (metis prod.collapse)
    have "source ?p1 \<noteq> None"
      using that(1) by (simp add: after_read_def)
    then have "?q = ?p1\<lparr>source := None, song := Some 0, startTime := 0,
        trace := trace ?p1 @
          [Called ContextClose, Called SourceDisconnect, Called (Free (waveBuffer ?p1)),
           Called (Free (midiFileBuffer ?p1)),
           Called (Engine ''mid_song_free'' [arg_of (song ?p1)]),
           Called (Engine ''mid_exit'' []), Emitted EvStop]\<rparr>"
      using s by (rule stop_live)
    then have "?p' = record_effect (Emitted (EvEnd (elapsed w p)))
        (?p1\<lparr>source := None, song := Some 0, startTime := 0,
          trace := trace ?p1 @
            [Called ContextClose, Called SourceDisconnect, Called (Free (waveBuffer ?p1)),
             Called (Free (midiFileBuffer ?p1)),
             Called (Engine ''mid_song_free'' [arg_of (song ?p1)]),
             Called (Engine ''mid_exit'' []), Emitted EvStop]\<rparr>)"
      by simp
    then show ?thesis
      by (simp add: record_effect_def after_read_def)
  qed
  have stopped: "source ?p' = None \<and> startTime ?p' = 0
      \<and> fst (stop w' ?p') = Inr True \<and> since ?p' (snd (stop w' ?p')) = [Emitted EvStop]"
    if "fst (stop w ?p1) = Inr True"
  proof -
    have "stop w ?p1 = (Inr True, ?q)"
      using that by (metis prod.collapse)
    then have "source ?q = None \<and> startTime ?q = 0"
      by (rule stop_True)
    then have s: "source ?p' = None" and t: "startTime ?p' = 0"
      by (simp_all add: record_effect_def)
    show ?thesis
      using s t stop_idle [OF s, of w'] by (simp add: since_def)
  qed
  have snd_run: "snd (handleOutput w k out p) = ?p'" and fst_run: "fst (handleOutput w k out p) = Inr out"
    using run by simp_all
  show ?thesis
    unfolding snd_run fst_run
    using one three live stopped by blast
qed

theorem handleOutput_end_of_stream_witness:
  "ctx playing = Some (AudioContext 44100)
   \<and> read_wave_result calm small playing = Inr 0
   \<and> source playing \<noteq> None
   \<and> fst (stop calm (after_read calm small playing)) = Inr True
   \<and> fst (handleOutput calm small [7, 7, 7, 7] playing) = Inr [7, 7, 7, 7]
   \<and> filter is_end (events (since playing (snd (handleOutput calm small [7, 7, 7, 7] playing))))
       = [EvEnd 0]
   \<and> snd (handleOutput calm small [7, 7, 7, 7] playing) =
       playing\<lparr>source := None, song := Some 0, startTime := 0,
         trace := trace playing @
           [Emitted (EvPlay 0),
            Called (Engine ''mid_song_read_wave'' [ANum 0, ANum 1280, ANum 8, ABool False]),
            Called ContextClose, Called SourceDisconnect,
            Called (Free (Some 1280)), Called (Free (Some 256)),
            Called (Engine ''mid_song_free'' [ANum 0]),
            Called (Engine ''mid_exit'' []),
            Emitted EvStop, Emitted (EvEnd 0)]\<rparr>
   \<and> since (snd (handleOutput calm small [7, 7, 7, 7] playing))
        (snd (stop calm (snd (handleOutput calm small [7, 7, 7, 7] playing)))) = [Emitted EvStop]"
proof -
  have a: "ctx playing = Some (AudioContext 44100)"
    by (simp add: playing_eq)
  have b: "read_wave_result calm small playing = Inr 0"
    by (simp add: read_wave_result_def calm_def)
  have e: "elapsed calm playing = 0"
    by (simp add: elapsed_def calm_def playing_eq)
  have r: "read_wave small playing =
      Engine ''mid_song_read_wave'' [ANum 0, ANum 1280, ANum 8, ABool False]"
    by (simp add: read_wave_def small_def playing_eq)
  have f: "waveBuffer playing = Some 1280" "midiFileBuffer playing = Some 256"
    "arg_of (song playing) = ANum 0"
    by (simp_all add: playing_eq)
  have l: "source playing \<noteq> None"
    by (simp add: playing_eq)
  have s: "fst (stop calm (after_read calm small playing)) = Inr True"
    by (simp add: after_read_def read_wave_def elapsed_def playing_eq stop_def
        disconnectSource_def freeMemory_def js_defs calm_def)
  note th = handleOutput_end_of_stream [OF a b, of "[7, 7, 7, 7]" calm, unfolded e r f]
  show ?thesis
    using a b l s th by blast
qed

text \<open>
  C5 as stated fails when a release call of the callback's \<open>stop()\<close> throws. In a
  world in which the first \<open>context.close()\<close> throws, the callback that reads 0 bytes
  leaves the output stage live, and the next \<open>stop()\<close> does release: it closes the
  context, disconnects the stage and frees the buffers and the song.
\<close>

theorem handleOutput_end_of_stream_counterexample:
  "ctx playing = Some (AudioContext 44100)
   \<and> read_wave_result jammed small playing = Inr 0
   \<and> fst (handleOutput jammed small [7, 7, 7, 7] playing) = Inr [7, 7, 7, 7]
   \<and> events (since playing (snd (handleOutput jammed small [7, 7, 7, 7] playing))) =
       [EvPlay 0,
        EvError (Msg ''Could not stop playback.'') (Some (Caught (Thrown ''InvalidStateError''))),
        EvEnd 0]
   \<and> source (snd (handleOutput jammed small [7, 7, 7, 7] playing)) = Some ()
   \<and> calls (since (snd (handleOutput jammed small [7, 7, 7, 7] playing))
        (snd (stop jammed (snd (handleOutput jammed small [7, 7, 7, 7] playing))))) =
       [ContextClose, SourceDisconnect, Free (Some 1280), Free (Some 256),
        Engine ''mid_song_free'' [ANum 0], Engine ''mid_exit'' []]"
  by (simp add: playing_eq read_wave_result_def elapsed_def handleOutput_def stop_def
      disconnectSource_def freeMemory_def js_defs jammed_def calm_def small_def since_def)

subsection \<open>play with an invalid source\<close>

lemma stop_effect_no_network: "list_all stop_effect xs \<Longrightarrow> list_all (\<lambda>x. \<not> is_network x) xs"
  by (induction xs) (auto elim: stop_effect.elims)

lemma play_invalid:
  assumes "(arrayBuffer \<noteq> None \<and> truthy url) \<or> (arrayBuffer = None \<and> \<not> truthy url)"
    and "stop w p = (Inr b, p1)"
  shows "play w k arrayBuffer url name audioContext p =
    (Inr (JBool False),
     case audioContext of
       Some c \<Rightarrow>
         p1\<lparr>ctx := Some c, sampleRate := Some (rate c),
            trace := trace p1 @
              [Emitted (EvError (if arrayBuffer \<noteq> None then ambiguous_source
                                 else unknown_source) None)]\<rparr>
     | None \<Rightarrow>
         (case w_newAudioContext w (trace p1) of
            Inr c \<Rightarrow>
              p1\<lparr>ctx := Some c, sampleRate := Some (rate c),
                 trace := trace p1 @
                   [Called NewAudioContext,
                    Emitted (EvError (if arrayBuffer \<noteq> None then ambiguous_source
                                      else unknown_source) None)]\<rparr>
          | Inl e \<Rightarrow>
              p1\<lparr>trace := trace p1 @
                   [Called NewAudioContext,
                    Emitted (EvError (Msg ''Could not set AudioContext.'')
                               (Some (Caught e)))]\<rparr>))"
  using assms
  by (auto simp add: play_def initAudioContext_def isSourceValid_def new_AudioContext_def js_defs
      split: option.splits sum.splits)

text \<open>
  C7, as the code has it. \<open>play()\<close> given both a URL and an array buffer, or
  neither, returns \<open>false\<close> and makes no network request. It begins with \<open>stop()\<close>,
  so it makes no engine call only when no output stage is live: then, with the audio
  context supplied or created, all it adds to the trace is the stop event, the
  creation of the context if none was supplied, and one error event, which reports
  the ambiguous source (both given) or the unknown source (neither given). In every
  state, what follows the initial \<open>stop()\<close> is the creation of the context if none
  was supplied and, when there is a context, that one error event. The initial
  \<open>stop()\<close> emits one event, a stop event when it returns \<open>true\<close> and an error event
  when it returns \<open>false\<close>; when it returns \<open>true\<close> with an output stage live, its
  calls are exactly the close of the context, the disconnect of the stage, the two
  frees, \<open>mid_song_free\<close> and \<open>mid_exit\<close>.
\<close>

theorem play_invalid_source:
  assumes "(arrayBuffer \<noteq> None \<and> truthy url) \<or> (arrayBuffer = None \<and> \<not> truthy url)"
  shows "fst (play w k arrayBuffer url name audioContext p) = Inr (JBool False)
    \<and> list_all (\<lambda>x. \<not> is_network x) (since p (snd (play w k arrayBuffer url name audioContext p)))
    \<and> (source p = None \<and> audioContext \<noteq> None \<longrightarrow>
         since p (snd (play w k arrayBuffer url name audioContext p)) =
           [Emitted EvStop,
            Emitted (EvError (if arrayBuffer \<noteq> None then ambiguous_source
                              else unknown_source) None)])
    \<and> (\<forall>c. source p = None \<and> audioContext = None
            \<and> w_newAudioContext w (trace p @ [Emitted EvStop]) = Inr c \<longrightarrow>
         since p (snd (play w k arrayBuffer url name audioContext p)) =
           [Emitted EvStop, Called NewAudioContext,
            Emitted (EvError (if arrayBuffer \<noteq> None then ambiguous_source
                              else unknown_source) None)])
    \<and> (audioContext \<noteq> None \<longrightarrow>
         since (snd (stop w p)) (snd (play w k arrayBuffer url name audioContext p)) =
           [Emitted (EvError (if arrayBuffer \<noteq> None then ambiguous_source
                              else unknown_source) None)])
    \<and> (\<forall>c. audioContext = None \<and> w_newAudioContext w (trace (snd (stop w p))) = Inr c \<longrightarrow>
         since (snd (stop w p)) (snd (play w k arrayBuffer url name audioContext p)) =
           [Called NewAudioContext,
            Emitted (EvError (if arrayBuffer \<noteq> None then ambiguous_source
                              else unknown_source) None)])
    \<and> trace (snd (play w k arrayBuffer url name audioContext p)) =
         trace p @ since p (snd (stop w p))
           @ since (snd (stop w p)) (snd (play w k arrayBuffer url name audioContext p))
    \<and> (source p \<noteq> None \<and> fst (stop w p) = Inr True \<longrightarrow>
         since p (snd (stop w p)) =
           [Called ContextClose, Called SourceDisconnect,
            Called (Free (waveBuffer p)), Called (Free (midiFileBuffer p)),
            Called (Engine ''mid_song_free'' [arg_of (song p)]),
            Called (Engine ''mid_exit'' []), Emitted EvStop])
    \<and> (\<exists>b e. fst (stop w p) = Inr b
          \<and> events (since p (snd (stop w p))) =
              [if b then EvStop
               else EvError (Msg ''Could not stop playback.'') (Some (Caught e))])"
proof -
  let ?err = "Emitted (EvError (if arrayBuffer \<noteq> None then ambiguous_source
                              else unknown_source) None)"
  let ?p' = "snd (play w k arrayBuffer url name audioContext p)"
  obtain b p1 where s: "stop w p = (Inr b, p1)"
    using stop_returns by blast
  note run = play_invalid [OF assms s, of k name audioContext]
  have p1: "snd (stop w p) = p1"
    using s by simp
  have tr: "trace p1 = trace p @ since p p1" and eff: "list_all stop_effect (since p p1)"
    using adds_since [OF adds_stop, of w p] p1 by simp_all
  obtain ys where ys: "trace ?p' = trace p1 @ ys" "list_all (\<lambda>x. \<not> is_network x) ys"
    "audioContext \<noteq> None \<longrightarrow> ys = [?err]"
    "\<forall>c. audioContext = None \<and> w_newAudioContext w (trace p1) = Inr c \<longrightarrow>
       ys = [Called NewAudioContext, ?err]"
    using run by (auto split: option.splits sum.splits)
  have "trace ?p' = trace p @ (since p p1 @ ys)"
    using tr ys(1) by simp
  then have whole: "since p ?p' = since p p1 @ ys"
    by (rule since_append)
  have tail: "since p1 ?p' = ys"
    using ys(1) by (rule since_append)
  have idle: "since p p1 = [Emitted EvStop] \<and> trace p1 = trace p @ [Emitted EvStop]"
    if "source p = None"
    using stop_idle [OF that, of w] s by (auto simp add: since_def)
  have "fst (play w k arrayBuffer url name audioContext p) = Inr (JBool False)"
    using run by simp
  moreover have "list_all (\<lambda>x. \<not> is_network x) (since p ?p')"
    using whole ys(2) stop_effect_no_network [OF eff] by simp
  moreover have "source p = None \<and> audioContext \<noteq> None \<longrightarrow> since p ?p' = [Emitted EvStop, ?err]"
    using whole ys(3) idle by simp
  moreover have "\<forall>c. source p = None \<and> audioContext = None
            \<and> w_newAudioContext w (trace p @ [Emitted EvStop]) = Inr c \<longrightarrow>
         since p ?p' = [Emitted EvStop, Called NewAudioContext, ?err]"
    using whole ys(4) idle by auto
  moreover have "audioContext \<noteq> None \<longrightarrow> since (snd (stop w p)) ?p' = [?err]"
    using tail ys(3) p1 by simp
  moreover have "\<forall>c. audioContext = None \<and> w_newAudioContext w (trace (snd (stop w p))) = Inr c
      \<longrightarrow> since (snd (stop w p)) ?p' = [Called NewAudioContext, ?err]"
    using tail ys(4) p1 by blast
  moreover have "trace ?p' = trace p @ since p (snd (stop w p)) @ since (snd (stop w p)) ?p'"
    using tr ys(1) tail p1 by simp
  moreover have "source p \<noteq> None \<and> fst (stop w p) = Inr True \<longrightarrow>
      since p (snd (stop w p)) =
        [Called ContextClose, Called SourceDisconnect,
         Called (Free (waveBuffer p)), Called (Free (midiFileBuffer p)),
         Called (Engine ''mid_song_free'' [arg_of (song p)]),
         Called (Engine ''mid_exit'' []), Emitted EvStop]"
  proof (intro impI)
    assume h: "source p \<noteq> None \<and> fst (stop w p) = Inr True"
    then have "stop w p = (Inr True, p1)"
      using s by simp
    then have "p1 = p\<lparr>source := None, song := Some 0, startTime := 0,
        trace := trace p @
          [Called ContextClose, Called SourceDisconnect, Called (Free (waveBuffer p)),
           Called (Free (midiFileBuffer p)), Called (Engine ''mid_song_free'' [arg_of (song p)]),
           Called (Engine ''mid_exit'' []), Emitted EvStop]\<rparr>"
      using h stop_live by blast
    then have "trace p1 = trace p @
          [Called ContextClose, Called SourceDisconnect, Called (Free (waveBuffer p)),
           Called (Free (midiFileBuffer p)), Called (Engine ''mid_song_free'' [arg_of (song p)]),
           Called (Engine ''mid_exit'' []), Emitted EvStop]"
      by simp
    then show "since p (snd (stop w p)) =
        [Called ContextClose, Called SourceDisconnect,
         Called (Free (waveBuffer p)), Called (Free (midiFileBuffer p)),
         Called (Engine ''mid_song_free'' [arg_of (song p)]),
         Called (Engine ''mid_exit'' []), Emitted EvStop]"
      unfolding p1 by (rule since_append)
  qed
  moreover have "\<exists>b e. fst (stop w p) = Inr b
      \<and> events (since p (snd (stop w p))) =
          [if b then EvStop else EvError (Msg ''Could not stop playback.'') (Some (Caught e))]"
    by (rule stop_events)
  ultimately show ?thesis
    by blast
qed

theorem play_invalid_source_witness:
  "truthy (Some ''tune.mid'') \<and> source fresh = None
   \<and> fst (play calm small (Some [1, 2]) (Some ''tune.mid'') None (Some (AudioContext 44100)) fresh)
       = Inr (JBool False)
   \<and> since fresh (snd (play calm small (Some [1, 2]) (Some ''tune.mid'') None
        (Some (AudioContext 44100)) fresh)) = [Emitted EvStop, Emitted (EvError ambiguous_source None)]
   \<and> \<not> truthy None
   \<and> since fresh (snd (play calm small None None None None fresh))
       = [Emitted EvStop, Called NewAudioContext, Emitted (EvError unknown_source None)]
   \<and> source playing \<noteq> None \<and> fst (stop calm playing) = Inr True
   \<and> since playing (snd (stop calm playing)) =
       [Called ContextClose, Called SourceDisconnect, Called (Free (Some 1280)),
        Called (Free (Some 256)), Called (Engine ''mid_song_free'' [ANum 0]),
        Called (Engine ''mid_exit'' []), Emitted EvStop]
   \<and> since (snd (stop calm playing))
        (snd (play calm small (Some [1, 2]) (Some ''tune.mid'') None (Some (AudioContext 44100))
           playing)) = [Emitted (EvError ambiguous_source None)]"
proof -
  have a: "(Some [1, 2 :: 8 word] \<noteq> None \<and> truthy (Some ''tune.mid''))
      \<or> (Some [1, 2 :: 8 word] = None \<and> \<not> truthy (Some ''tune.mid''))"
    by simp
  have b: "((None :: 8 word list option) \<noteq> None \<and> truthy None)
      \<or> ((None :: 8 word list option) = None \<and> \<not> truthy None)"
    by simp
  have s: "source fresh = None"
    by (simp add: fresh_eq blank_def)
  have c: "w_newAudioContext calm (trace fresh @ [Emitted EvStop]) = Inr (AudioContext 44100)"
    by (simp add: calm_def)
  have l: "source playing \<noteq> None"
    by (simp add: playing_eq)
  have t: "fst (stop calm playing) = Inr True"
    by (simp add: playing_eq stop_def disconnectSource_def freeMemory_def js_defs calm_def)
  have f: "waveBuffer playing = Some 1280" "midiFileBuffer playing = Some 256"
    "arg_of (song playing) = ANum 0"
    by (simp_all add: playing_eq)
  show ?thesis
    using s c l t
      play_invalid_source [OF a, of calm small None "Some (AudioContext 44100)" fresh]
      play_invalid_source [OF b, of calm small None None fresh]
      play_invalid_source [OF a, of calm small None "Some (AudioContext 44100)" playing,
        unfolded f]
    by simp
qed

text \<open>
  C7 as stated fails while a session is live: \<open>play()\<close> with both a URL and an array
  buffer then releases the session through the host and the engine before it rejects
  the source.
\<close>

theorem play_invalid_source_counterexample:
  "truthy (Some ''tune.mid'')
   \<and> calls (since playing (snd (play calm small (Some [1, 2]) (Some ''tune.mid'') None
        (Some (AudioContext 44100)) playing)))
     = [ContextClose, SourceDisconnect, Free (Some 1280), Free (Some 256),
        Engine ''mid_song_free'' [ANum 0], Engine ''mid_exit'' []]"
  by (simp add: playing_eq run_defs js_defs calm_def since_def)

subsection \<open>Loading a song\<close>

lemma patchLoop_logs:
  "\<exists>xs. snd (patchLoop w n i p) = p\<lparr>trace := trace p @ xs\<rparr> \<and> list_all patch_effect xs"
proof (induction w n i p rule: patchLoop.induct)
  case (1 w n i p)
  show ?case
  proof (cases "i < n")
    case False
    then have "snd (patchLoop w n i p) = p\<lparr>trace := trace p @ []\<rparr>"
      by (subst patchLoop.simps) simp
    moreover have "list_all patch_effect []"
      by simp
    ultimately show ?thesis by blast
  next
    case True
    let ?c = "Called (Engine ''mid_song_get_missing_instrument'' [arg_of (song p), ANum i])"
    let ?p1 = "record_effect ?c p"
    show ?thesis
    proof (cases "w_engine_string w (trace p) ''mid_song_get_missing_instrument''
        [arg_of (song p), ANum i]")
      case (Inl e)
      have "snd (patchLoop w n i p) = p\<lparr>trace := trace p @ [?c]\<rparr>"
        using True Inl by (subst patchLoop.simps) (simp add: engine_string_def record_effect_def)
      moreover have "list_all patch_effect [?c]"
        by simp
      ultimately show ?thesis by blast
    next
      case (Inr missingPatch)
      let ?l = "Called (LoadPatchFromUrl (patchUrl p) missingPatch)"
      let ?p2 = "record_effect ?l ?p1"
      show ?thesis
      proof (cases "w_void w (trace ?p1) (LoadPatchFromUrl (patchUrl ?p1) missingPatch)")
        case (Some error)
        have "snd (patchLoop w n i p) = p\<lparr>trace := trace p @ [?c, ?l,
            Emitted (EvError (CouldNotRetrievePatch missingPatch i) (Some (Caught error)))]\<rparr>"
          using True Inr Some
          by (subst patchLoop.simps) (simp add: js_defs)
        moreover have "list_all patch_effect [?c, ?l,
            Emitted (EvError (CouldNotRetrievePatch missingPatch i) (Some (Caught error)))]"
          by simp
        ultimately show ?thesis by blast
      next
        case None
        have eng: "engine_string w ''mid_song_get_missing_instrument'' [arg_of (song p), ANum i] p
            = (Inr missingPatch, ?p1)"
          using Inr by (simp add: engine_string_def)
        have load: "call_void w (LoadPatchFromUrl (patchUrl ?p1) missingPatch) ?p1
            = (Inr (), ?p2)"
          using None by (simp add: call_void_def record_effect_def)
        have step: "patchLoop w n i p = patchLoop w n (i + 1) ?p2"
          using True eng load by (subst patchLoop.simps) simp
        obtain xs where xs: "snd (patchLoop w n (i + 1) ?p2) = ?p2\<lparr>trace := trace ?p2 @ xs\<rparr>"
          "list_all patch_effect xs"
          using "1.IH" [OF True eng [symmetric] refl load [symmetric] refl] by blast
        have "snd (patchLoop w n i p) = p\<lparr>trace := trace p @ ([?c, ?l] @ xs)\<rparr>"
          using step xs(1) by (simp add: record_effect_def)
        moreover have "list_all patch_effect ([?c, ?l] @ xs)"
          using xs(2) by simp
        ultimately show ?thesis by blast
      qed
    qed
  qed
qed

lemma getInstrumentPatches_logs:
  "\<exists>xs. snd (getInstrumentPatches w p) =
      p\<lparr>trace := trace p @
        Called (Engine ''mid_song_get_num_missing_instruments'' [arg_of (song p)]) # xs\<rparr>
    \<and> list_all patch_effect xs"
proof -
  let ?c = "Called (Engine ''mid_song_get_num_missing_instruments'' [arg_of (song p)])"
  let ?p1 = "record_effect ?c p"
  show ?thesis
  proof (cases "w_engine w (trace p) ''mid_song_get_num_missing_instruments'' [arg_of (song p)]")
    case (Inl e)
    then have "snd (getInstrumentPatches w p) = p\<lparr>trace := trace p @ ?c # []\<rparr>"
      by (simp add: getInstrumentPatches_def js_defs)
    moreover have "list_all patch_effect []"
      by simp
    ultimately show ?thesis by blast
  next
    case (Inr n)
    show ?thesis
    proof (cases "n > 0")
      case False
      then have "snd (getInstrumentPatches w p) = p\<lparr>trace := trace p @ ?c # []\<rparr>"
        using Inr by (simp add: getInstrumentPatches_def js_defs)
      moreover have "list_all patch_effect []"
        by simp
      ultimately show ?thesis by blast
    next
      case True
      let ?p2 = "record_effect (Emitted (EvLoadPatch n)) ?p1"
      obtain xs where xs: "snd (patchLoop w n 0 ?p2) = ?p2\<lparr>trace := trace ?p2 @ xs\<rparr>"
        "list_all patch_effect xs"
        using patchLoop_logs by blast
      have "getInstrumentPatches w p = patchLoop w n 0 ?p2"
        using True Inr by (simp add: getInstrumentPatches_def js_defs)
      then have "snd (getInstrumentPatches w p) =
          p\<lparr>trace := trace p @ ?c # (Emitted (EvLoadPatch n) # xs)\<rparr>"
        using xs(1) by (simp add: record_effect_def)
      moreover have "list_all patch_effect (Emitted (EvLoadPatch n) # xs)"
        using xs(2) by simp
      ultimately show ?thesis by blast
    qed
  qed
qed





text \<open>
  C1. The claim's last part fails. With two patches missing and the fetch of the
  first one failing, the fetch of the second is not attempted, but the failure does
  not end the load: \<open>loadSong\<close> does not look at the result of
  \<open>getInstrumentPatches\<close>, so it opens and loads the song again and returns \<open>true\<close>,
  and \<open>play()\<close> goes on to call \<open>mid_song_start\<close> and to set up playback.
\<close>

theorem play_starts_song_after_patch_failure:
  "play patchless small (Some [1, 2]) None None (Some (AudioContext 44100)) fresh =
    (Inr JUndefined,
     fresh\<lparr>ctx := Some (AudioContext 44100), sampleRate := Some 44100, source := Some (),
       gainNode := Some (Num (4 / 5)), song := Some 0, stream := Some 0,
       midiFileArray := [1, 2], midiFileBuffer := Some 256, waveBuffer := Some 1536,
       startTime := 0,
       trace := trace fresh @
         [Emitted EvStop, Emitted (EvLoadFile ''Loading...''),
          Called (Malloc 2), Called (WriteArrayToMemory [1, 2] (Some 256)),
          Called (Engine ''mid_init'' []),
          Called (Engine ''mid_istream_open_mem'' [ANum 256, ANum 2, ABool False]),
          Called (Engine ''mid_create_options'' [ANum 44100, ANum 32784, ANum 1, ANum 8]),
          Called (Engine ''mid_song_load'' [ANum 0, ANum 0]),
          Called (Engine ''mid_istream_close'' [ANum 0]),
          Called (Engine ''mid_song_get_num_missing_instruments'' [ANum 0]),
          Emitted (EvLoadPatch 2),
          Called (Engine ''mid_song_get_missing_instrument'' [ANum 0, ANum 0]),
          Called (LoadPatchFromUrl ''patches/'' ''piano''),
          Emitted (EvError (CouldNotRetrievePatch ''piano'' 0) (Some (Caught (Thrown ''404'')))),
          Called (Engine ''mid_istream_open_mem'' [ANum 256, ANum 2, ABool False]),
          Called (Engine ''mid_song_load'' [ANum 0, ANum 0]),
          Called (Engine ''mid_istream_close'' [ANum 0]),
          Called (Engine ''mid_song_start'' [ANum 0]),
          Called (CreateScriptProcessor 4 0 1), Called CreateGain,
          Called GainConnectDestination, Called SourceConnectGain,
          Called (Malloc 8), Emitted (EvPlay 0)]\<rparr>)"
  by (simp add: run_defs js_defs patchLoop.simps fresh_eq blank_def patchless_def calm_def small_def)

subsection \<open>Fields that a statement leaves as they were\<close>

lemma keepsI: "(\<And>p. f (snd (m p)) = f p) \<Longrightarrow> keeps f m"
  by (simp add: keeps_def)

lemma keepsD: "keeps f m \<Longrightarrow> f (snd (m p)) = f p"
  by (simp add: keeps_def)

lemma keeps_ret: "keeps f (ret x)"
  by (simp add: keeps_def ret_def)

lemma keeps_andThen:
  assumes "keeps f m" and "\<And>x. keeps f (g x)"
  shows "keeps f (andThen m g)"
proof (rule keepsI)
  fix p
  show "f (snd (andThen m g p)) = f p"
  proof (cases "m p")
    case (Pair r q)
    have q: "f q = f p"
      using keepsD [OF assms(1), of p] Pair by simp
    show ?thesis
    proof (cases r)
      case (Inl e)
      then show ?thesis using Pair q by (simp add: andThen_def)
    next
      case (Inr x)
      then show ?thesis using Pair q keepsD [OF assms(2), of x q] by (simp add: andThen_def)
    qed
  qed
qed

lemma keeps_try_catch:
  assumes "keeps f m" and "\<And>e. keeps f (h e)"
  shows "keeps f (try_catch m h)"
proof (rule keepsI)
  fix p
  show "f (snd (try_catch m h p)) = f p"
  proof (cases "m p")
    case (Pair r q)
    have q: "f q = f p"
      using keepsD [OF assms(1), of p] Pair by simp
    show ?thesis
    proof (cases r)
      case (Inr x)
      then show ?thesis using Pair q by (simp add: try_catch_def)
    next
      case (Inl e)
      then show ?thesis using Pair q keepsD [OF assms(2), of e q] by (simp add: try_catch_def)
    qed
  qed
qed

lemma keeps_block_Nil: "keeps f (block [])"
  by (simp add: keeps_ret)

lemma keeps_block_Cons: "keeps f m \<Longrightarrow> keeps f (block ms) \<Longrightarrow> keeps f (block (m # ms))"
  by (simp add: keeps_andThen)

lemma keeps_if: "keeps f a \<Longrightarrow> keeps f b \<Longrightarrow> keeps f (if c then a else b)"
  by simp

lemma keeps_option: "keeps f a \<Longrightarrow> (\<And>x. keeps f (b x)) \<Longrightarrow> keeps f (case_option a b v)"
  by (cases v) simp_all

lemmas keeps_rules = keeps_ret keeps_andThen keeps_try_catch keeps_block_Nil keeps_block_Cons
  keeps_if keeps_option

text \<open>The volume is only written by the constructor and by setVolume.\<close>

lemmas leaf_defs = keeps_def js_defs new_AudioContext_def fetch_def response_arrayBuffer_def
  open_mem_def

lemma keeps_volume_stop: "keeps volume (stop w)"
  by (simp add: keeps_def stop_volume)

lemma keeps_volume_initAudioContext: "keeps volume (initAudioContext w audioContext)"
  unfolding initAudioContext_def
  by (intro keeps_rules) (simp_all add: leaf_defs)

lemma keeps_volume_isSourceValid: "keeps volume (isSourceValid arrayBuffer url)"
  unfolding isSourceValid_def
  by (intro keeps_rules) (simp_all add: leaf_defs)

lemma keeps_volume_getSource: "keeps volume (getSource w arrayBuffer url)"
  unfolding getSource_def
  by (intro keeps_rules) (simp_all add: leaf_defs Let_def)

lemma keeps_volume_handleStream: "keeps volume (handleStream w k)"
  unfolding handleStream_def
  by (intro keeps_rules) (simp_all add: leaf_defs)

lemma keeps_volume_getInstrumentPatches: "keeps volume (getInstrumentPatches w)"
proof (rule keepsI)
  fix p
  obtain xs where "snd (getInstrumentPatches w p) =
      p\<lparr>trace := trace p @
        Called (Engine ''mid_song_get_num_missing_instruments'' [arg_of (song p)]) # xs\<rparr>"
    using getInstrumentPatches_logs by blast
  then show "volume (snd (getInstrumentPatches w p)) = volume p"
    by simp
qed

lemma keeps_volume_loadSong: "keeps volume (loadSong w k bytes)"
  unfolding loadSong_def
  by (intro keeps_rules keeps_volume_handleStream keeps_volume_getInstrumentPatches)
     (simp_all add: leaf_defs)

lemma keeps_volume_initPlayback: "keeps volume (initPlayback w k)"
  unfolding initPlayback_def connectSource_def createGainNode_def
  by (intro keeps_rules) (simp_all add: leaf_defs split: option.splits)

lemma keeps_volume_play: "keeps volume (play w k arrayBuffer url name audioContext)"
  unfolding play_def
  by (intro keeps_rules keeps_volume_stop keeps_volume_initAudioContext
      keeps_volume_isSourceValid keeps_volume_getSource keeps_volume_loadSong
      keeps_volume_initPlayback)
     (simp_all add: leaf_defs)

lemma keeps_volume_preload: "keeps volume (preload w k items audioContext)"
proof (induction items)
  case Nil
  show ?case by (simp add: keeps_ret)
next
  case (Cons item items)
  obtain arrayBuffer url where item: "item = (arrayBuffer, url)"
    by (cases item)
  show ?case
    unfolding item preload.simps
    by (intro keeps_rules keeps_volume_initAudioContext keeps_volume_isSourceValid
        keeps_volume_getSource keeps_volume_handleStream keeps_volume_getInstrumentPatches Cons)
       (simp_all add: leaf_defs)
qed

lemma keeps_volume_handleOutput: "keeps volume (handleOutput w k outputBuffer)"
  unfolding handleOutput_def
  by (intro keeps_rules keeps_volume_stop) (simp_all add: leaf_defs split: option.splits)

lemma perform_volume: "volume (perform w k x p) = volume p"
proof (cases x)
  case (DoPlay arrayBuffer url name audioContext)
  then show ?thesis using keepsD [OF keeps_volume_play] by simp
next
  case (DoPreload items audioContext)
  then show ?thesis using keepsD [OF keeps_volume_preload] by simp
next
  case (DoCallback outputBuffer)
  then show ?thesis using keepsD [OF keeps_volume_handleOutput] by simp
qed (simp_all add: stop_volume pause_volume resume_volume emitEvent_def setLogger_def js_defs)

lemma later_volume: "volume (later w k xs p) = volume p"
  by (induction xs arbitrary: p) (simp_all add: perform_volume)

text \<open>
  C10. After \<open>setVolume\<close> with a volume whose \<open>parseFloat\<close> is not \<open>NaN\<close>, the
  stored volume is the argument itself, not its parsed number, and \<open>getVolume()\<close>
  returns it: at once, and after any sequence of later calls of \<open>play\<close>, \<open>preload\<close>,
  \<open>pause\<close>, \<open>resume\<close>, \<open>stop\<close>, \<open>emitEvent\<close>, \<open>setLogger\<close> and of the audio callback,
  in any world, whether they return or throw. The gain of an existing gain node is
  the argument coerced to a number and divided by 100.
\<close>

theorem setVolume_keeps_argument:
  assumes "\<not> isNaN (parseFloat w v)"
  shows "getVolume (snd (setVolume w v p)) = v
    \<and> getVolume (later w' k ops (snd (setVolume w v p))) = v
    \<and> getVolume (snd (pause w' (snd (setVolume w v p)))) = v
    \<and> getVolume (snd (resume w' (snd (setVolume w v p)))) = v
    \<and> getVolume (snd (stop w' (snd (setVolume w v p)))) = v
    \<and> (gainNode p \<noteq> None \<longrightarrow>
          gainNode (snd (setVolume w v p)) = Some (divide_by (toNumber w v) 100))"
proof -
  have "volume (snd (setVolume w v p)) = v"
    using assms by (simp add: setVolume_def js_defs split: option.splits)
  moreover have "gainNode p \<noteq> None \<longrightarrow>
      gainNode (snd (setVolume w v p)) = Some (divide_by (toNumber w v) 100)"
    using assms by (auto simp add: setVolume_def js_defs split: option.splits)
  ultimately show ?thesis
    by (simp add: getVolume_def later_volume stop_volume pause_volume resume_volume)
qed

theorem setVolume_keeps_argument_witness:
  "\<not> isNaN (parseFloat calm (JStr ''50''))
   \<and> gainNode playing \<noteq> None
   \<and> getVolume (snd (setVolume calm (JStr ''50'') playing)) = JStr ''50''
   \<and> getVolume (later calm small
        [DoPause, DoCallback [0, 0, 0, 0], DoResume,
         DoPlay (Some [1, 2]) None None (Some (AudioContext 44100)),
         DoCallback [0, 0, 0, 0], DoStop]
        (snd (setVolume calm (JStr ''50'') playing))) = JStr ''50''
   \<and> gainNode (snd (setVolume calm (JStr ''50'') playing)) = Some (Num (1 / 2))"
proof -
  have a: "\<not> isNaN (parseFloat calm (JStr ''50''))"
    by (simp add: calm_def)
  have t: "divide_by (toNumber calm (JStr ''50'')) 100 = Num (1 / 2)"
    by (simp add: calm_def)
  have g: "gainNode playing \<noteq> None"
    by (simp add: playing_eq)
  note th = setVolume_keeps_argument [OF a, of playing calm small
      "[DoPause, DoCallback [0, 0, 0, 0], DoResume,
        DoPlay (Some [1, 2]) None None (Some (AudioContext 44100)),
        DoCallback [0, 0, 0, 0], DoStop]", unfolded t]
  show ?thesis
    using a g th by blast
qed

end
